theory Spec2Isabelle
  imports Complex_Main
begin

section \<open>Data model (lib/supabase-repo.ts, supabase/schema.sql)\<close>

text \<open>
  The shop's records. Isabelle record fields are global constants, so every field carries
  a short prefix naming its record (\<open>p_\<close> product, \<open>c_\<close> client, \<open>o_\<close> order, \<open>it_\<close> order
  item); after the prefix the name is the one of the source. Quantities and stock are
  integers (the column is \<open>integer\<close>), amounts of money are rationals, identifiers and
  timestamps are strings. The application type \<open>Product\<close> and the row type \<open>ProductRow\<close>
  differ only in the spelling of two field names and are one record here; the same holds
  for \<open>Client\<close> and \<open>ClientRow\<close>.
\<close>

record ProductImage =
  img_name :: string
  img_size :: nat
  img_type :: string
  img_dataUrl :: string

record Product =
  p_id :: string
  p_name :: string
  p_color :: string
  p_stock :: int
  p_cost :: rat
  p_salePrice :: rat
  p_image :: "ProductImage option"
  p_createdAt :: string

record Client =
  c_id :: string
  c_name :: string
  c_documentId :: string
  c_phone :: string
  c_address :: string
  c_createdAt :: string

datatype OrderKind = Sale | SalesOrder

datatype Role = Admin | Operator

text \<open>
  \<open>createOrder\<close> receives an order without \<open>id\<close>, \<open>sequence\<close>, \<open>created_at\<close> and with
  items that lack \<open>id\<close> and \<open>order_id\<close>. The argument types are the records
  \<open>OrderDraft\<close> and \<open>OrderItemDraft\<close>; a stored row wraps the draft and adds the
  fields the repository and the database supply.
\<close>

record OrderItemDraft =
  it_product_id :: "string option"
  it_product_name :: "string option"
  it_color :: "string option"
  it_qty :: int
  it_unit_price :: rat
  it_subtotal :: rat

record OrderItem =
  it_id :: string
  it_order_id :: string
  it_fields :: OrderItemDraft

record OrderDraft =
  o_kind :: OrderKind
  o_total :: rat
  o_payment_method :: "string option"
  o_performed_by_username :: "string option"
  o_performed_by_role :: "Role option"
  o_client_id :: "string option"
  o_client_name :: "string option"
  o_client_document_id :: "string option"
  o_client_phone :: "string option"
  o_delivery_address :: "string option"
  o_subtotal :: "rat option"
  o_discount :: "rat option"
  o_notes :: "string option"
  o_items :: "OrderItemDraft list"

record OrderRow =
  o_id :: string
  o_fields :: OrderDraft
  o_sequence :: int
  o_created_at :: string

record Order =
  ord_row :: OrderRow
  ord_items :: "OrderItem list"

text \<open>
  The hosted store: the four tables of schema.sql and the counter behind the
  \<open>bigserial\<close> column \<open>orders.sequence\<close>. The \<open>o_items\<close> field of a stored order row
  is not a column; the rows of \<open>order_items\<close> are the stored items.
\<close>

record db =
  products :: "Product list"
  clients :: "Client list"
  orders :: "OrderRow list"
  order_items :: "OrderItem list"
  orders_sequence :: int

definition empty_db :: db where
  "empty_db = \<lparr>products = [], clients = [], orders = [], order_items = [], orders_sequence = 0\<rparr>"

section \<open>Environment of a repository call\<close>

text \<open>
  Every request to the hosted store returns \<open>{data, error}\<close> and the repository throws
  a non-null \<open>error\<close>. Which requests fail (transport, authorisation, a constraint of
  the schema) is outside the program, so it is a parameter: \<open>fails e c\<close> says that
  request \<open>c\<close> returns an error, and a request that returns an error writes nothing.
  The last two calls are \<open>window.localStorage.setItem\<close> on the keys of the tickets
  configuration and of the sales orders, which throws when the browser refuses the write.
  \<open>uid e k\<close> is what the \<open>k\<close>-th call of \<open>uid()\<close> (lib/id.ts, a random UUID) returns
  during the operation, and \<open>now e\<close> is the database's \<open>now()\<close>.
\<close>

datatype call =
  InsertOrder
  | InsertOrderItems
  | SelectStock nat
  | UpdateStock nat
  | SelectProducts
  | UpsertProducts
  | UpsertClients
  | DeleteProducts
  | DeleteClients
  | DeleteOrders
  | SetItemTicketsConfig
  | SetItemSalesOrders

datatype error = StorageError call

record env =
  fails :: "call \<Rightarrow> bool"
  uid :: "nat \<Rightarrow> string"
  now :: string

section \<open>createOrder (lib/supabase-repo.ts)\<close>

text \<open>
  \<open>select("stock").eq("id", product_id).maybeSingle()\<close>: the stock of the row with
  that primary key, or no row. \<open>update({stock: next}).eq("id", product_id)\<close>: every row
  with that key gets the new stock; no row matching is not an error.
\<close>

definition select_stock :: "Product list \<Rightarrow> string option \<Rightarrow> int option" where
  "select_stock ps pid =
     (case pid of
        None \<Rightarrow> None
      | Some i \<Rightarrow> map_option p_stock (find (\<lambda>p. p_id p = i) ps))"

definition update_stock :: "string option \<Rightarrow> int \<Rightarrow> Product list \<Rightarrow> Product list" where
  "update_stock pid n ps = map (\<lambda>p. if Some (p_id p) = pid then p\<lparr>p_stock := n\<rparr> else p) ps"

text \<open>
  The loop \<open>for (const it of order.items)\<close> of the sale branch, from item number \<open>i\<close>
  on: read the stock (\<open>prod?.stock ?? 0\<close>), compute \<open>Math.max(0, current - it.qty)\<close>,
  write it. The first failing request throws and leaves the loop. The loop touches no
  table but \<open>products\<close>, so it is a function on the rows of that table.
\<close>

fun decrement_stock ::
  "env \<Rightarrow> nat \<Rightarrow> OrderItemDraft list \<Rightarrow> Product list \<Rightarrow> error option \<times> Product list" where
  "decrement_stock e i [] ps = (None, ps)"
| "decrement_stock e i (it # its) ps =
     (if fails e (SelectStock i) then (Some (StorageError (SelectStock i)), ps)
      else
        let current = (case select_stock ps (it_product_id it) of None \<Rightarrow> 0 | Some s \<Rightarrow> s);
            next = max 0 (current - it_qty it)
        in if fails e (UpdateStock i) then (Some (StorageError (UpdateStock i)), ps)
           else decrement_stock e (Suc i) its (update_stock (it_product_id it) next ps))"

definition itemsPayload :: "env \<Rightarrow> string \<Rightarrow> OrderItemDraft list \<Rightarrow> OrderItem list" where
  "itemsPayload e orderId its =
     map (\<lambda>(k, it). \<lparr>it_id = uid e (Suc k), it_order_id = orderId, it_fields = it\<rparr>)
       (enumerate 0 its)"

text \<open>
  \<open>createOrder\<close>: insert the order header (the database assigns \<open>sequence\<close> and
  \<open>created_at\<close>), insert the items, and for a sale decrement the stock line by line.
  The result is the thrown error or the composed order, together with the store as the
  calls left it.
\<close>

definition createOrder :: "env \<Rightarrow> OrderDraft \<Rightarrow> db \<Rightarrow> (error + Order) \<times> db" where
  "createOrder e order d =
     (let orderId = uid e 0 in
      if fails e InsertOrder then (Inl (StorageError InsertOrder), d)
      else
        let createdOrderRow =
              \<lparr>o_id = orderId, o_fields = order,
               o_sequence = orders_sequence d + 1, o_created_at = now e\<rparr>;
            d1 = d\<lparr>orders := orders d @ [createdOrderRow],
                   orders_sequence := orders_sequence d + 1\<rparr>;
            payload = itemsPayload e orderId (o_items order)
        in if fails e InsertOrderItems then (Inl (StorageError InsertOrderItems), d1)
           else
             let d2 = d1\<lparr>order_items := order_items d1 @ payload\<rparr>;
                 created = \<lparr>ord_row = createdOrderRow, ord_items = payload\<rparr>
             in if o_kind order = Sale
                then (case decrement_stock e 0 (o_items order) (products d2) of
                        (Some err, ps) \<Rightarrow> (Inl err, d2\<lparr>products := ps\<rparr>)
                      | (None, ps) \<Rightarrow> (Inr created, d2\<lparr>products := ps\<rparr>))
                else (Inr created, d2))"

text \<open>
  The value \<open>current\<close> that iteration \<open>i\<close> of the loop reads: the stock of the product
  of line \<open>i\<close> in the table as the first \<open>i\<close> iterations left it (\<open>0\<close> when no row has
  that id).
\<close>

definition current_at :: "env \<Rightarrow> OrderItemDraft list \<Rightarrow> Product list \<Rightarrow> nat \<Rightarrow> int" where
  "current_at e its ps i =
     (case select_stock (snd (decrement_stock e 0 (take i its) ps)) (it_product_id (its ! i)) of
        None \<Rightarrow> 0 | Some s \<Rightarrow> s)"

section \<open>The cart of the order pages (app/register-sale/page.tsx)\<close>

text \<open>
  A cart line holds the product record as it was when the line was created (a snapshot)
  and a quantity. Each handler passes a function to \<open>setCart\<close>; the model is that
  function, from the previous cart to the next. The sales-order page has the same four
  handlers, word for word.
\<close>

record CartLine =
  cl_product :: Product
  cl_quantity :: int

definition handleAddProduct :: "Product \<Rightarrow> CartLine list \<Rightarrow> CartLine list" where
  "handleAddProduct prd prev =
     (case find (\<lambda>line. p_id (cl_product line) = p_id prd) prev of
        Some existing \<Rightarrow>
          map (\<lambda>line. if p_id (cl_product line) = p_id prd
                       then line\<lparr>cl_quantity := min (cl_quantity line + 1) (p_stock prd)\<rparr>
                       else line) prev
      | None \<Rightarrow> prev @ [\<lparr>cl_product = prd, cl_quantity = 1\<rparr>])"

definition handleUpdateQuantity :: "string \<Rightarrow> int \<Rightarrow> CartLine list \<Rightarrow> CartLine list" where
  "handleUpdateQuantity productId quantity prev =
     map (\<lambda>line. if p_id (cl_product line) = productId
                  then line\<lparr>cl_quantity := max 1 (min quantity (p_stock (cl_product line)))\<rparr>
                  else line) prev"

definition handleAdjustQuantity :: "string \<Rightarrow> int \<Rightarrow> CartLine list \<Rightarrow> CartLine list" where
  "handleAdjustQuantity productId delta prev =
     map (\<lambda>line. if p_id (cl_product line) \<noteq> productId then line
                  else let nextQuantity = max 1 (min (cl_quantity line + delta) (p_stock (cl_product line)))
                       in line\<lparr>cl_quantity := nextQuantity\<rparr>) prev"

definition handleRemoveLine :: "string \<Rightarrow> CartLine list \<Rightarrow> CartLine list" where
  "handleRemoveLine productId prev = filter (\<lambda>line. p_id (cl_product line) \<noteq> productId) prev"

text \<open>
  The range of a line's quantity: at least one, at most the stock of the line's snapshot.
\<close>

definition line_ok :: "CartLine \<Rightarrow> bool" where
  "line_ok line = (1 \<le> cl_quantity line \<and> cl_quantity line \<le> p_stock (cl_product line))"

definition cart_ok :: "CartLine list \<Rightarrow> bool" where
  "cart_ok c = list_all line_ok c"

text \<open>
  The carts the page can hold: the empty cart of \<open>useState([])\<close> and \<open>resetSale\<close>, and
  what the four handlers make of such a cart.
\<close>

inductive built :: "CartLine list \<Rightarrow> bool" where
  built_empty: "built []"
| built_add: "built c \<Longrightarrow> built (handleAddProduct prd c)"
| built_update: "built c \<Longrightarrow> built (handleUpdateQuantity productId quantity c)"
| built_adjust: "built c \<Longrightarrow> built (handleAdjustQuantity productId delta c)"
| built_remove: "built c \<Longrightarrow> built (handleRemoveLine productId c)"

section \<open>Strings\<close>

text \<open>
  \<open>String.prototype.trim\<close> on the ASCII white space (space, tab, line feed, vertical
  tab, form feed, carriage return), for the address, the notes and the names that the
  forms trim. \<open>login\<close> takes the method of the engine instead (see below).
\<close>

definition is_space :: "char \<Rightarrow> bool" where
  "is_space c = (c \<in> set [CHR '' '', CHR 0x09, CHR 0x0A, CHR 0x0B, CHR 0x0C, CHR 0x0D])"

definition trim :: "string \<Rightarrow> string" where
  "trim s = rev (dropWhile is_space (rev (dropWhile is_space s)))"

section \<open>The register-sale page (app/register-sale/page.tsx)\<close>

text \<open>
  The state of the page that \<open>handleSubmit\<close> reads. \<open>pg_discount\<close> is what
  \<open>parseBsInput(discount)\<close> returns for the text of the discount field (\<open>None\<close> for
  \<open>null\<close>); \<open>subtotal\<close>, \<open>discountAmount\<close> and \<open>total\<close> are the values the
  component derives from the state on every render.
\<close>

record User =
  u_username :: string
  u_role :: Role

record page =
  pg_user :: "User option"
  pg_selectedClient :: "Client option"
  pg_cart :: "CartLine list"
  pg_discount :: "rat option"
  pg_paymentMethod :: string
  pg_deliveryAddress :: string
  pg_notes :: string

definition subtotal :: "CartLine list \<Rightarrow> rat" where
  "subtotal c = foldl (\<lambda>sum line. sum + p_salePrice (cl_product line) * of_int (cl_quantity line)) 0 c"

definition discountAmount :: "page \<Rightarrow> rat" where
  "discountAmount pg = (case pg_discount pg of None \<Rightarrow> 0 | Some v \<Rightarrow> v)"

definition total :: "page \<Rightarrow> rat" where
  "total pg = max 0 (subtotal (pg_cart pg) - discountAmount pg)"

definition normalizedAddress :: "page \<Rightarrow> string" where
  "normalizedAddress pg = (if trim (pg_deliveryAddress pg) = [] then ''Retiro en tienda'' else trim (pg_deliveryAddress pg))"

text \<open>
  The messages the page shows. A stock problem is one string of the list \<open>problems\<close>:
  "Producto no encontrado: name (color)." or "name (color): stock insuficiente
  (disponible stock, requerido quantity)."; the constructors keep the values the
  string is built from. The form errors are "Selecciona o crea un cliente antes de
  continuar.", "Agrega al menos un producto al carrito.", "El descuento no puede superar
  el subtotal." and "No se puede registrar la venta por stock insuficiente:" followed by
  the problems. An outcome is what became of a submission: \<open>NotSubmitted\<close> is the silent
  return when no user is logged in, \<open>Rejected\<close> a \<open>setFormError\<close> and return,
  \<open>Thrown\<close> an exception that leaves the handler, \<open>Saved\<close> the stored order.
\<close>

datatype problem =
  ProductNotFound string string
  | InsufficientStock string string int int

datatype form_error =
  NoClient
  | EmptyCart
  | DiscountOverSubtotal
  | StockInsufficient "problem list"

datatype 'a outcome =
  NotSubmitted
  | Rejected form_error
  | Thrown error
  | Saved 'a

text \<open>
  \<open>listProducts\<close> returns the rows of \<open>products\<close>, newest first. The page looks rows
  up by id, so the order of the rows is not modelled.
\<close>

definition listProducts :: "env \<Rightarrow> db \<Rightarrow> error + Product list" where
  "listProducts e d = (if fails e SelectProducts then Inl (StorageError SelectProducts) else Inr (products d))"

text \<open>
  The validation loop of \<open>handleSubmit\<close>: \<open>for (const line of cart)\<close>, pushing one
  problem for a missing product and one for a stock below the quantity.
\<close>

fun stock_problems :: "Product list \<Rightarrow> CartLine list \<Rightarrow> problem list" where
  "stock_problems currentInventory [] = []"
| "stock_problems currentInventory (line # rest) =
     (case find (\<lambda>prd. p_id prd = p_id (cl_product line)) currentInventory of
        None \<Rightarrow>
          ProductNotFound (p_name (cl_product line)) (p_color (cl_product line))
            # stock_problems currentInventory rest
      | Some p \<Rightarrow>
          if p_stock p < cl_quantity line
          then InsufficientStock (p_name (cl_product line)) (p_color (cl_product line))
                 (p_stock p) (cl_quantity line) # stock_problems currentInventory rest
          else stock_problems currentInventory rest)"

definition sale_items :: "CartLine list \<Rightarrow> OrderItemDraft list" where
  "sale_items c =
     map (\<lambda>line. \<lparr>it_product_id = Some (p_id (cl_product line)),
                   it_product_name = Some (p_name (cl_product line)),
                   it_color = Some (p_color (cl_product line)),
                   it_qty = cl_quantity line,
                   it_unit_price = p_salePrice (cl_product line),
                   it_subtotal = p_salePrice (cl_product line) * of_int (cl_quantity line)\<rparr>) c"

definition sale_draft :: "User \<Rightarrow> Client \<Rightarrow> page \<Rightarrow> OrderDraft" where
  "sale_draft u cl pg =
     \<lparr>o_kind = Sale, o_total = total pg, o_payment_method = Some (pg_paymentMethod pg),
      o_performed_by_username = Some (u_username u), o_performed_by_role = Some (u_role u),
      o_client_id = Some (c_id cl), o_client_name = Some (c_name cl),
      o_client_document_id = Some (c_documentId cl), o_client_phone = Some (c_phone cl),
      o_delivery_address = Some (normalizedAddress pg), o_subtotal = Some (subtotal (pg_cart pg)),
      o_discount = Some (discountAmount pg), o_notes = Some (trim (pg_notes pg)),
      o_items = sale_items (pg_cart pg)\<rparr>"

text \<open>
  \<open>handleSubmit\<close> of the register-sale page, up to the stored order: the four guards,
  the re-read of the inventory, the validation of the stock, and \<open>createOrder\<close>. What
  follows in the source (refreshing the list, the ticket, resetting the form) writes
  nothing to the store.
\<close>

definition handleSubmit_sale :: "env \<Rightarrow> page \<Rightarrow> db \<Rightarrow> Order outcome \<times> db" where
  "handleSubmit_sale e pg d =
     (case pg_user pg of
        None \<Rightarrow> (NotSubmitted, d)
      | Some u \<Rightarrow>
     (case pg_selectedClient pg of
        None \<Rightarrow> (Rejected NoClient, d)
      | Some cl \<Rightarrow>
        if pg_cart pg = [] then (Rejected EmptyCart, d)
        else if discountAmount pg > subtotal (pg_cart pg) then (Rejected DiscountOverSubtotal, d)
        else
          (case listProducts e d of
             Inl err \<Rightarrow> (Thrown err, d)
           | Inr currentInventory \<Rightarrow>
               let problems = stock_problems currentInventory (pg_cart pg) in
               if problems \<noteq> [] then (Rejected (StockInsufficient problems), d)
               else
                 (case createOrder e (sale_draft u cl pg) d of
                    (Inl err, d') \<Rightarrow> (Thrown err, d')
                  | (Inr created, d') \<Rightarrow> (Saved created, d')))))"

text \<open>
  In the words of the specification: a line offends when its product no longer exists or
  its quantity is greater than the stock just re-read; \<open>problem_of\<close> is the entry of the
  error for such a line.
\<close>

definition offending :: "Product list \<Rightarrow> CartLine \<Rightarrow> bool" where
  "offending inventory line =
     (case find (\<lambda>prd. p_id prd = p_id (cl_product line)) inventory of
        None \<Rightarrow> True
      | Some p \<Rightarrow> cl_quantity line > p_stock p)"

definition problem_of :: "Product list \<Rightarrow> CartLine \<Rightarrow> problem" where
  "problem_of inventory line =
     (case find (\<lambda>prd. p_id prd = p_id (cl_product line)) inventory of
        None \<Rightarrow> ProductNotFound (p_name (cl_product line)) (p_color (cl_product line))
      | Some p \<Rightarrow> InsufficientStock (p_name (cl_product line)) (p_color (cl_product line))
                    (p_stock p) (cl_quantity line))"

section \<open>JavaScript numbers\<close>

text \<open>
  The ticket counter is a JavaScript number, an IEEE 754 double. A finite double is the
  rational it stands for, and the two zeros are one value. \<open>to_double\<close> rounds a
  rational to the nearest double, ties to the even significand: \<open>exponent m\<close> is the
  \<open>e\<close> with \<open>2^e \<le> m < 2^(e+1)\<close>, found from the bit lengths of numerator and
  denominator; the unit in the last place is \<open>2^(e-52)\<close>, from \<open>2^-1074\<close> on for the
  subnormal numbers; a result of \<open>2^1024\<close> or more is an infinity.
\<close>

datatype number = NaN | PosInfinity | NegInfinity | Fin rat

function bits :: "int \<Rightarrow> nat" where
  "bits n = (if n \<le> 0 then 0 else Suc (bits (n div 2)))"
  by pat_completeness auto
termination
  by (relation "measure nat") auto

declare bits.simps [simp del]

definition pow2 :: "int \<Rightarrow> rat" where
  "pow2 k = (if 0 \<le> k then 2 ^ nat k else 1 / 2 ^ nat (- k))"

definition exponent :: "rat \<Rightarrow> int" where
  "exponent x =
     (let e0 = int (bits (fst (quotient_of x))) - int (bits (snd (quotient_of x)))
      in if pow2 e0 \<le> x then e0 else e0 - 1)"

definition round_half_even :: "rat \<Rightarrow> int" where
  "round_half_even q =
     (let f = \<lfloor>q\<rfloor>; r = q - of_int f
      in if r < 1 / 2 then f else if 1 / 2 < r then f + 1 else if even f then f else f + 1)"

definition to_double :: "rat \<Rightarrow> number" where
  "to_double x =
     (if x = 0 then Fin 0
      else
        let m = \<bar>x\<bar>;
            e = max (exponent m) (- 1022);
            ulp = pow2 (e - 52);
            y = of_int (round_half_even (m / ulp)) * ulp
        in if pow2 1024 \<le> y then (if 0 < x then PosInfinity else NegInfinity)
           else Fin (if 0 < x then y else - y))"

text \<open>
  A value found where the code expects a number, in a document parsed from JSON or in
  an object built by the page: a number, or a value that is not one (a string, a
  boolean, \<open>null\<close>, an object, a missing field), given by the number that
  \<open>Number\<close> makes of it: the string \<open>"abc"\<close> and a missing field are
  \<open>NotANumber NaN\<close>, \<open>null\<close> is \<open>NotANumber (Fin 0)\<close>, the string \<open>"12"\<close> is
  \<open>NotANumber (Fin 12)\<close>. \<open>JSON.stringify\<close> writes a number that is not finite as
  \<open>null\<close> and the other values as they are: \<open>json v\<close> is what a later
  \<open>JSON.parse\<close> reads where \<open>v\<close> was written.
\<close>

datatype js_value = IsNumber number | NotANumber number

fun Number :: "js_value \<Rightarrow> number" where
  "Number (IsNumber n) = n"
| "Number (NotANumber n) = n"

fun json :: "js_value \<Rightarrow> js_value" where
  "json (IsNumber (Fin x)) = IsNumber (Fin x)"
| "json (IsNumber n) = NotANumber (Fin 0)"
| "json (NotANumber n) = NotANumber n"

text \<open>
  The three operations of the page on the counter. \<open>n || 1\<close>: \<open>NaN\<close> and zero are
  falsy. \<open>Math.max(1, n)\<close>. \<open>n + 1\<close>: the sum rounded to a double.
\<close>

definition number_or_1 :: "number \<Rightarrow> number" where
  "number_or_1 n = (case n of NaN \<Rightarrow> Fin 1 | Fin x \<Rightarrow> if x = 0 then Fin 1 else Fin x | _ \<Rightarrow> n)"

definition max_1 :: "number \<Rightarrow> number" where
  "max_1 n =
     (case n of NaN \<Rightarrow> NaN | PosInfinity \<Rightarrow> PosInfinity | NegInfinity \<Rightarrow> Fin 1
      | Fin x \<Rightarrow> Fin (max 1 x))"

definition plus_1 :: "number \<Rightarrow> number" where
  "plus_1 n = (case n of Fin x \<Rightarrow> to_double (x + 1) | _ \<Rightarrow> n)"

section \<open>Tickets configuration and sales orders in localStorage\<close>

text \<open>
  The sales-order page keeps its data in the browser: the tickets configuration
  (lib/settings.ts in its localStorage version) and the list of sales orders. The
  stored document is parsed JSON: its \<open>nextNumber\<close> is any value, and either side may
  be missing; \<open>ls_tickets\<close> is \<open>None\<close> when the key is absent or its text does not
  parse. The two default texts with a non-ASCII letter are given by their UTF-8 bytes.
\<close>

record TicketSideConfig =
  ts_nextNumber :: js_value
  ts_farewell :: string

record TicketsConfig =
  t_companyName :: string
  t_subtitle :: string
  t_sale :: TicketSideConfig
  t_order :: TicketSideConfig

record StoredTickets =
  st_companyName :: string
  st_subtitle :: string
  st_sale :: "TicketSideConfig option"
  st_order :: "TicketSideConfig option"

definition DEFAULT_TICKETS_CONFIG :: TicketsConfig where
  "DEFAULT_TICKETS_CONFIG =
     \<lparr>t_companyName = ''AIJMIROSHOP'',
      t_subtitle = ''Sistema de Gesti'' @ [CHR 0xC3, CHR 0xB3] @ ''n de Inventario'',
      t_sale = \<lparr>ts_nextNumber = IsNumber (Fin 1),
                ts_farewell = [CHR 0xC2, CHR 0xA1] @ ''Gracias por su compra!''\<rparr>,
      t_order = \<lparr>ts_nextNumber = IsNumber (Fin 1),
                 ts_farewell = [CHR 0xC2, CHR 0xA1] @ ''Gracias por su preferencia!''\<rparr>\<rparr>"

record SalesOrderItem =
  soi_productId :: string
  soi_productName :: string
  soi_color :: string
  soi_quantity :: int
  soi_unitPrice :: rat
  soi_lineTotal :: rat

record SalesOrder =
  so_id :: string
  so_kind :: "OrderKind option"
  so_performedByUsername :: "string option"
  so_performedByRole :: "Role option"
  so_clientId :: string
  so_clientName :: string
  so_clientDocumentId :: string
  so_clientPhone :: string
  so_deliveryAddress :: string
  so_paymentMethod :: string
  so_sequence :: "number option"
  so_subtotal :: rat
  so_discount :: rat
  so_total :: rat
  so_notes :: string
  so_createdAt :: string
  so_items :: "SalesOrderItem list"

record localStorage =
  ls_tickets :: "StoredTickets option"
  ls_salesOrders :: "SalesOrder list"

text \<open>
  \<open>getTicketsConfig\<close> returns the stored document when \<open>companyName\<close>,
  \<open>subtitle\<close>, \<open>sale\<close> and \<open>order\<close> are all truthy (\<open>usable\<close>), and a copy of the
  default otherwise; it never throws. \<open>saveTicketsConfig\<close> and \<open>persistSalesOrder\<close>
  write inside \<open>try\<close> and swallow the exception of a refused write. \<open>stringify\<close> is the
  document that a later read parses from what \<open>JSON.stringify\<close> wrote; a sequence
  number that is not finite is written as \<open>null\<close> in a stored order.
\<close>

definition usable :: "StoredTickets \<Rightarrow> bool" where
  "usable parsed =
     (st_companyName parsed \<noteq> [] \<and> st_subtitle parsed \<noteq> []
      \<and> st_sale parsed \<noteq> None \<and> st_order parsed \<noteq> None)"

definition getTicketsConfig :: "localStorage \<Rightarrow> TicketsConfig" where
  "getTicketsConfig ls =
     (case ls_tickets ls of
        None \<Rightarrow> DEFAULT_TICKETS_CONFIG
      | Some parsed \<Rightarrow>
          (case (st_sale parsed, st_order parsed) of
             (Some s, Some ord) \<Rightarrow>
               if st_companyName parsed \<noteq> [] \<and> st_subtitle parsed \<noteq> []
               then \<lparr>t_companyName = st_companyName parsed, t_subtitle = st_subtitle parsed,
                     t_sale = s, t_order = ord\<rparr>
               else DEFAULT_TICKETS_CONFIG
           | _ \<Rightarrow> DEFAULT_TICKETS_CONFIG))"

definition stringify :: "TicketsConfig \<Rightarrow> StoredTickets" where
  "stringify cfg =
     \<lparr>st_companyName = t_companyName cfg, st_subtitle = t_subtitle cfg,
      st_sale = Some ((t_sale cfg)\<lparr>ts_nextNumber := json (ts_nextNumber (t_sale cfg))\<rparr>),
      st_order = Some ((t_order cfg)\<lparr>ts_nextNumber := json (ts_nextNumber (t_order cfg))\<rparr>)\<rparr>"

definition saveTicketsConfig :: "env \<Rightarrow> TicketsConfig \<Rightarrow> localStorage \<Rightarrow> localStorage" where
  "saveTicketsConfig e cfg ls =
     (if fails e SetItemTicketsConfig then ls else ls\<lparr>ls_tickets := Some (stringify cfg)\<rparr>)"

definition loadStoredSalesOrders :: "localStorage \<Rightarrow> SalesOrder list" where
  "loadStoredSalesOrders ls = ls_salesOrders ls"

definition persistSalesOrder :: "env \<Rightarrow> SalesOrder \<Rightarrow> localStorage \<Rightarrow> localStorage" where
  "persistSalesOrder e ord ls =
     (let current = loadStoredSalesOrders ls;
          written = ord\<lparr>so_sequence := (case so_sequence ord of
                                            Some (Fin x) \<Rightarrow> Some (Fin x) | _ \<Rightarrow> None)\<rparr>
      in if fails e SetItemSalesOrders then ls else ls\<lparr>ls_salesOrders := written # current\<rparr>)"

definition orderItems :: "CartLine list \<Rightarrow> SalesOrderItem list" where
  "orderItems c =
     map (\<lambda>line. \<lparr>soi_productId = p_id (cl_product line),
                   soi_productName = p_name (cl_product line),
                   soi_color = p_color (cl_product line),
                   soi_quantity = cl_quantity line,
                   soi_unitPrice = p_salePrice (cl_product line),
                   soi_lineTotal = p_salePrice (cl_product line) * of_int (cl_quantity line)\<rparr>) c"

text \<open>
  \<open>handleSubmit\<close> of the sales-order page: the four guards, the ticket number drawn
  from the configuration (\<open>Math.max(1, Number(cfg.order.nextNumber) || 1)\<close>), the write
  of the configuration with \<open>nextSequence + 1\<close>, the order and its write. The \<open>catch\<close>
  of the block that computes the number is not a branch of the model: the block calls
  \<open>getTicketsConfig\<close> and \<open>saveTicketsConfig\<close>, neither of which throws, and reads a
  field of \<open>cfg.order\<close>, which is truthy.
\<close>

definition handleSubmit_order :: "env \<Rightarrow> page \<Rightarrow> localStorage \<Rightarrow> SalesOrder outcome \<times> localStorage" where
  "handleSubmit_order e pg ls =
     (case pg_user pg of
        None \<Rightarrow> (NotSubmitted, ls)
      | Some u \<Rightarrow>
     (case pg_selectedClient pg of
        None \<Rightarrow> (Rejected NoClient, ls)
      | Some cl \<Rightarrow>
        if pg_cart pg = [] then (Rejected EmptyCart, ls)
        else if discountAmount pg > subtotal (pg_cart pg) then (Rejected DiscountOverSubtotal, ls)
        else
          let cfg = getTicketsConfig ls;
              nextSequence = max_1 (number_or_1 (Number (ts_nextNumber (t_order cfg))));
              updated = cfg\<lparr>t_order :=
                          (t_order cfg)\<lparr>ts_nextNumber := IsNumber (plus_1 nextSequence)\<rparr>\<rparr>;
              ls1 = saveTicketsConfig e updated ls;
              ord = \<lparr>so_id = uid e 0, so_kind = Some SalesOrder,
                     so_performedByUsername = Some (u_username u),
                     so_performedByRole = Some (u_role u),
                     so_clientId = c_id cl, so_clientName = c_name cl,
                     so_clientDocumentId = c_documentId cl, so_clientPhone = c_phone cl,
                     so_deliveryAddress = normalizedAddress pg,
                     so_paymentMethod = pg_paymentMethod pg,
                     so_sequence = Some nextSequence,
                     so_subtotal = subtotal (pg_cart pg), so_discount = discountAmount pg,
                     so_total = total pg, so_notes = trim (pg_notes pg),
                     so_createdAt = now e, so_items = orderItems (pg_cart pg)\<rparr>
          in (Saved ord, persistSalesOrder e ord ls1)))"

text \<open>
  In the words of the specification: the number assigned from a counter is the counter
  itself, and 1 when the counter is not a number or is below 1. \<open>stored_counter\<close> is the
  counter of the order side of the stored document, read as a number; \<open>read_counter\<close>
  is the counter that a submission is handed: the stored one when the stored document
  is usable, the default one otherwise; \<open>sequence_of\<close> is the sequence number of the
  order that a submission saved.
\<close>

definition assigned_number :: "number \<Rightarrow> number" where
  "assigned_number v =
     (case v of Fin x \<Rightarrow> if x < 1 then Fin 1 else Fin x | PosInfinity \<Rightarrow> PosInfinity
      | _ \<Rightarrow> Fin 1)"

definition stored_counter :: "localStorage \<Rightarrow> number option" where
  "stored_counter ls =
     (case ls_tickets ls of
        None \<Rightarrow> None
      | Some parsed \<Rightarrow> map_option (\<lambda>side. Number (ts_nextNumber side)) (st_order parsed))"

definition read_counter :: "localStorage \<Rightarrow> number" where
  "read_counter ls =
     (case ls_tickets ls of
        None \<Rightarrow> Fin 1
      | Some parsed \<Rightarrow>
          (case st_order parsed of
             None \<Rightarrow> Fin 1
           | Some side \<Rightarrow> if usable parsed then Number (ts_nextNumber side) else Fin 1))"

definition sequence_of :: "SalesOrder outcome \<Rightarrow> number option" where
  "sequence_of r = (case r of Saved ord \<Rightarrow> so_sequence ord | _ \<Rightarrow> None)"

section \<open>Products, clients and orders (lib/supabase-repo.ts)\<close>

text \<open>
  The argument of \<open>upsertProduct\<close> and \<open>upsertClient\<close> is the entity without
  \<open>createdAt\<close> and with an optional \<open>id\<close>. The repository takes \<open>p.id ?? uid()\<close>
  as the id and sends the row to \<open>upsert\<close>: a row with that primary key is overwritten
  in the columns of the payload (\<open>created_at\<close> is not one of them), and otherwise a row
  is inserted with \<open>created_at\<close> from the column default \<open>now()\<close>. The function returns
  the row the database selects back.
\<close>

record ProductInput =
  pi_id :: "string option"
  pi_name :: string
  pi_color :: string
  pi_stock :: int
  pi_cost :: rat
  pi_salePrice :: rat
  pi_image :: "ProductImage option"

record ClientInput =
  ci_id :: "string option"
  ci_name :: string
  ci_documentId :: string
  ci_phone :: string
  ci_address :: string

definition upsertProduct :: "env \<Rightarrow> ProductInput \<Rightarrow> db \<Rightarrow> (error + Product) \<times> db" where
  "upsertProduct e p d =
     (let id' = (case pi_id p of None \<Rightarrow> uid e 0 | Some i \<Rightarrow> i);
          payload = \<lparr>p_id = id', p_name = pi_name p, p_color = pi_color p, p_stock = pi_stock p,
                     p_cost = pi_cost p, p_salePrice = pi_salePrice p, p_image = pi_image p,
                     p_createdAt = now e\<rparr>
      in if fails e UpsertProducts then (Inl (StorageError UpsertProducts), d)
         else
           (case find (\<lambda>r. p_id r = id') (products d) of
              None \<Rightarrow> (Inr payload, d\<lparr>products := products d @ [payload]\<rparr>)
            | Some old \<Rightarrow>
                let row = payload\<lparr>p_createdAt := p_createdAt old\<rparr>
                in (Inr row, d\<lparr>products := map (\<lambda>r. if p_id r = id' then row else r) (products d)\<rparr>)))"

definition upsertClient :: "env \<Rightarrow> ClientInput \<Rightarrow> db \<Rightarrow> (error + Client) \<times> db" where
  "upsertClient e c d =
     (let id' = (case ci_id c of None \<Rightarrow> uid e 0 | Some i \<Rightarrow> i);
          payload = \<lparr>c_id = id', c_name = ci_name c, c_documentId = ci_documentId c,
                     c_phone = ci_phone c, c_address = ci_address c, c_createdAt = now e\<rparr>
      in if fails e UpsertClients then (Inl (StorageError UpsertClients), d)
         else
           (case find (\<lambda>r. c_id r = id') (clients d) of
              None \<Rightarrow> (Inr payload, d\<lparr>clients := clients d @ [payload]\<rparr>)
            | Some old \<Rightarrow>
                let row = payload\<lparr>c_createdAt := c_createdAt old\<rparr>
                in (Inr row, d\<lparr>clients := map (\<lambda>r. if c_id r = id' then row else r) (clients d)\<rparr>)))"

text \<open>
  The deletes, with what schema.sql attaches to them: deleting a product sets
  \<open>product_id\<close> of its order items to null, deleting an order deletes its items, and a
  client that an order references cannot be deleted (the foreign key has no action).
  \<open>clearOrders\<close> deletes every order.
\<close>

definition deleteProduct :: "env \<Rightarrow> string \<Rightarrow> db \<Rightarrow> error option \<times> db" where
  "deleteProduct e i d =
     (if fails e DeleteProducts then (Some (StorageError DeleteProducts), d)
      else (None, d\<lparr>products := filter (\<lambda>r. p_id r \<noteq> i) (products d),
                     order_items := map (\<lambda>it. if it_product_id (it_fields it) = Some i
                                              then it\<lparr>it_fields := (it_fields it)\<lparr>it_product_id := None\<rparr>\<rparr>
                                              else it) (order_items d)\<rparr>))"

definition deleteClient :: "env \<Rightarrow> string \<Rightarrow> db \<Rightarrow> error option \<times> db" where
  "deleteClient e i d =
     (if fails e DeleteClients \<or> Some i \<in> (\<lambda>r. o_client_id (o_fields r)) ` set (orders d)
      then (Some (StorageError DeleteClients), d)
      else (None, d\<lparr>clients := filter (\<lambda>r. c_id r \<noteq> i) (clients d)\<rparr>))"

definition deleteOrder :: "env \<Rightarrow> string \<Rightarrow> db \<Rightarrow> error option \<times> db" where
  "deleteOrder e i d =
     (if fails e DeleteOrders then (Some (StorageError DeleteOrders), d)
      else (None, d\<lparr>orders := filter (\<lambda>r. o_id r \<noteq> i) (orders d),
                     order_items := filter (\<lambda>it. it_order_id it \<noteq> i) (order_items d)\<rparr>))"

definition clearOrders :: "env \<Rightarrow> db \<Rightarrow> error option \<times> db" where
  "clearOrders e d =
     (if fails e DeleteOrders then (Some (StorageError DeleteOrders), d)
      else (None, d\<lparr>orders := [], order_items := []\<rparr>))"

section \<open>The inventory page (app/inventory/page.tsx)\<close>

text \<open>
  \<open>Number.parseInt(s, 10)\<close>: leading white space, an optional sign, then the longest
  run of decimal digits; \<open>None\<close> is \<open>NaN\<close>, the result when there is no digit.
\<close>

definition is_digit :: "char \<Rightarrow> bool" where
  "is_digit c = (48 \<le> (of_char c :: nat) \<and> (of_char c :: nat) \<le> 57)"

definition digit_value :: "char \<Rightarrow> int" where
  "digit_value c = int (of_char c :: nat) - 48"

definition parseInt10 :: "string \<Rightarrow> int option" where
  "parseInt10 s =
     (let t = dropWhile is_space s;
          negative = (case t of c # _ \<Rightarrow> c = CHR ''-'' | [] \<Rightarrow> False);
          u = (case t of c # r \<Rightarrow> if c = CHR ''-'' \<or> c = CHR ''+'' then r else t | [] \<Rightarrow> []);
          ds = takeWhile is_digit u
      in if ds = [] then None
         else let n = foldl (\<lambda>acc c. 10 * acc + digit_value c) 0 ds
              in Some (if negative then - n else n))"

text \<open>
  The product form. \<open>f_stock\<close> is the text of the stock field; \<open>f_cost\<close> and
  \<open>f_salePrice\<close> are what \<open>parseBsInput\<close> returns for the two amount fields.
  \<open>handleSubmit\<close> checks the required fields, the stock (\<open>Number.isNaN(stockValue) ||
  stockValue < 0\<close>), the amounts and that the sale price is not below the cost, and then
  upserts, with the id of the product being edited or without an id. An error of the
  repository is caught and becomes a message of the form.
\<close>

record File =
  file_name :: string
  file_size :: nat
  file_type :: string

record ProductFormState =
  f_name :: string
  f_color :: string
  f_stock :: string
  f_cost :: "rat option"
  f_salePrice :: "rat option"
  f_imageFile :: "File option"
  f_imagePreview :: "string option"

datatype inventory_error =
  RequiredFields
  | InvalidStock
  | InvalidAmount
  | SalePriceBelowCost
  | CloudUpdateFailed
  | CloudSaveFailed

definition form_image :: "ProductFormState \<Rightarrow> Product option \<Rightarrow> ProductImage option" where
  "form_image formState editingProduct =
     (case (f_imageFile formState, f_imagePreview formState) of
        (Some file, Some preview) \<Rightarrow>
          (if preview \<noteq> []
           then Some \<lparr>img_name = file_name file, img_size = file_size file,
                       img_type = file_type file, img_dataUrl = preview\<rparr>
           else None)
      | (_, None) \<Rightarrow> None
      | (None, Some preview) \<Rightarrow>
          (if preview \<noteq> [] then (case editingProduct of None \<Rightarrow> None | Some ep \<Rightarrow> p_image ep)
           else None))"

definition handleSubmit_inventory ::
  "env \<Rightarrow> ProductFormState \<Rightarrow> Product option \<Rightarrow> db \<Rightarrow> (inventory_error + Product) \<times> db" where
  "handleSubmit_inventory e formState editingProduct d =
     (if trim (f_name formState) = [] \<or> trim (f_color formState) = [] then (Inl RequiredFields, d)
      else
        (case parseInt10 (f_stock formState) of
           None \<Rightarrow> (Inl InvalidStock, d)
         | Some stockValue \<Rightarrow>
             if stockValue < 0 then (Inl InvalidStock, d)
             else
               (case (f_cost formState, f_salePrice formState) of
                  (Some costValue, Some salePriceValue) \<Rightarrow>
                    if salePriceValue < costValue then (Inl SalePriceBelowCost, d)
                    else
                      let image = form_image formState editingProduct;
                          input = \<lparr>pi_id = map_option p_id editingProduct,
                                   pi_name = trim (f_name formState),
                                   pi_color = trim (f_color formState),
                                   pi_stock = stockValue, pi_cost = costValue,
                                   pi_salePrice = salePriceValue, pi_image = image\<rparr>
                      in (case fst (upsertProduct e input d) of
                            Inr saved \<Rightarrow> Inr saved
                          | Inl err \<Rightarrow>
                              Inl (if editingProduct = None then CloudSaveFailed
                                   else CloudUpdateFailed),
                          snd (upsertProduct e input d))
                | _ \<Rightarrow> (Inl InvalidAmount, d))))"

text \<open>
  A row of an imported spreadsheet after the cells are read: the trimmed texts of name,
  color and stock and the parsed amounts. \<open>importedProduct\<close> is the product the row
  contributes to \<open>importedProducts\<close>, \<open>None\<close> when the row is reported as an issue.
  Every imported product is then passed to \<open>upsertProduct\<close>.
\<close>

record ImportRow =
  r_name :: string
  r_color :: string
  r_stock :: string
  r_cost :: "rat option"
  r_salePrice :: "rat option"

definition importedProduct :: "ImportRow \<Rightarrow> ProductInput option" where
  "importedProduct row =
     (if r_name row = [] \<or> r_color row = [] then None
      else
        (case parseInt10 (r_stock row) of
           None \<Rightarrow> None
         | Some stockValue \<Rightarrow>
             if stockValue < 0 then None
             else
               (case (r_cost row, r_salePrice row) of
                  (Some costValue, Some salePriceValue) \<Rightarrow>
                    if salePriceValue < costValue then None
                    else Some \<lparr>pi_id = None, pi_name = r_name row, pi_color = r_color row,
                                 pi_stock = stockValue, pi_cost = costValue,
                                 pi_salePrice = salePriceValue, pi_image = None\<rparr>
                | _ \<Rightarrow> None)))"

section \<open>The stores the application reaches\<close>

text \<open>
  \<open>reachable d0 d\<close>: the store \<open>d\<close> comes from \<open>d0\<close> by operations of the pages, each
  in an environment of its own: the inventory form, an imported product, the deletion of
  a product, a sale submission, \<open>createOrder\<close> with any order, and the operations on
  clients and orders. \<open>stock_nonneg\<close>: no product has a negative stock.
\<close>

inductive reachable :: "db \<Rightarrow> db \<Rightarrow> bool" for d0 :: db where
  start: "reachable d0 d0"
| inventory_submit:
    "reachable d0 d \<Longrightarrow> reachable d0 (snd (handleSubmit_inventory e formState editingProduct d))"
| inventory_import:
    "reachable d0 d \<Longrightarrow> importedProduct row = Some p \<Longrightarrow> reachable d0 (snd (upsertProduct e p d))"
| inventory_delete:
    "reachable d0 d \<Longrightarrow> reachable d0 (snd (deleteProduct e i d))"
| sale_submit:
    "reachable d0 d \<Longrightarrow> reachable d0 (snd (handleSubmit_sale e pg d))"
| order_create:
    "reachable d0 d \<Longrightarrow> reachable d0 (snd (createOrder e order d))"
| client_upsert:
    "reachable d0 d \<Longrightarrow> reachable d0 (snd (upsertClient e c d))"
| client_delete:
    "reachable d0 d \<Longrightarrow> reachable d0 (snd (deleteClient e i d))"
| order_delete:
    "reachable d0 d \<Longrightarrow> reachable d0 (snd (deleteOrder e i d))"
| orders_clear:
    "reachable d0 d \<Longrightarrow> reachable d0 (snd (clearOrders e d))"

definition stock_nonneg :: "db \<Rightarrow> bool" where
  "stock_nonneg d = list_all (\<lambda>p. 0 \<le> p_stock p) (products d)"

section \<open>Login (lib/auth-context.tsx, lib/settings.ts)\<close>

text \<open>
  \<open>login\<close> calls two string methods of the JavaScript engine,
  \<open>String.prototype.trim\<close> and \<open>String.prototype.toLowerCase\<close>, which are defined on
  the whole of Unicode: the white space that \<open>trim\<close> removes includes U+00A0 and
  U+FEFF, and \<open>toLowerCase\<close> follows the Unicode case mappings. They are not code of
  the program, so they are parameters of the model: \<open>login rt\<close> is the function run by
  an engine \<open>rt\<close>, and what is proved of it holds whatever the two methods are. A string
  is the list of the bytes of its UTF-8 encoding.

  The users configuration is the settings document \<open>users\<close>; \<open>getUsersConfig\<close>
  returns it when it is there and well formed (\<open>Some\<close>) and the default, with an empty
  admin name and password and no operator, when the read fails or the document is
  absent or malformed (\<open>None\<close>). \<open>login\<close> returns its response and the \<open>user\<close> state
  of the provider, which \<open>setUser\<close> replaces on success. The one failure message is
  given with the UTF-8 bytes of its non-ASCII letter.
\<close>

record runtime =
  String_trim :: "string \<Rightarrow> string"
  String_toLowerCase :: "string \<Rightarrow> string"

record AdminUser =
  a_username :: string
  a_password :: string

record OperatorUser =
  op_id :: string
  op_username :: string
  op_password :: string
  op_active :: bool

record UsersConfig =
  uc_admin :: AdminUser
  uc_operators :: "OperatorUser list"

definition DEFAULT_USERS_CONFIG :: UsersConfig where
  "DEFAULT_USERS_CONFIG = \<lparr>uc_admin = \<lparr>a_username = [], a_password = []\<rparr>, uc_operators = []\<rparr>"

definition getUsersConfig :: "UsersConfig option \<Rightarrow> UsersConfig" where
  "getUsersConfig remote = (case remote of Some cfg \<Rightarrow> cfg | None \<Rightarrow> DEFAULT_USERS_CONFIG)"

record LoginPayload =
  lp_username :: string
  lp_password :: string
  lp_role :: Role

datatype LoginResponse = Success User | Failure string

definition INVALID_CREDENTIALS :: string where
  "INVALID_CREDENTIALS =
     ''Credenciales incorrectas. Verifica usuario, contrase'' @ [CHR 0xC3, CHR 0xB1] @ ''a y rol.''"

definition login :: "runtime \<Rightarrow> UsersConfig option \<Rightarrow> LoginPayload \<Rightarrow> User option
                       \<Rightarrow> LoginResponse \<times> User option" where
  "login rt remote payload st =
     (let normalizedUsername = String_trim rt (lp_username payload);
          cfg = getUsersConfig remote
      in case lp_role payload of
           Admin \<Rightarrow>
             let isUserValid = (String_toLowerCase rt normalizedUsername
                                  = String_toLowerCase rt (a_username (uc_admin cfg)));
                 isPasswordValid = (lp_password payload = a_password (uc_admin cfg))
             in if \<not> isUserValid \<or> \<not> isPasswordValid then (Failure INVALID_CREDENTIALS, st)
                else let authenticatedUser = \<lparr>u_username = a_username (uc_admin cfg), u_role = lp_role payload\<rparr>
                     in (Success authenticatedUser, Some authenticatedUser)
         | Operator \<Rightarrow>
             (case find (\<lambda>oper. op_active oper
                              \<and> String_toLowerCase rt (op_username oper)
                                  = String_toLowerCase rt normalizedUsername
                              \<and> op_password oper = lp_password payload) (uc_operators cfg) of
                None \<Rightarrow> (Failure INVALID_CREDENTIALS, st)
              | Some found \<Rightarrow>
                  let authenticatedUser = \<lparr>u_username = op_username found, u_role = lp_role payload\<rparr>
                  in (Success authenticatedUser, Some authenticatedUser)))"

text \<open>
  In the words of the specification. Two names are the same without regard to case
  when the engine gives them the same lower-case form. The credentials match when the
  trimmed username is the same, without regard to case, as the name of the admin record
  and the password equals its password exactly (role admin), or when this holds of some
  operator record that is active (role operator).
\<close>

definition same_ignoring_case :: "runtime \<Rightarrow> string \<Rightarrow> string \<Rightarrow> bool" where
  "same_ignoring_case rt a b = (String_toLowerCase rt a = String_toLowerCase rt b)"

definition credentials_match :: "runtime \<Rightarrow> UsersConfig \<Rightarrow> LoginPayload \<Rightarrow> bool" where
  "credentials_match rt cfg payload =
     (case lp_role payload of
        Admin \<Rightarrow>
          same_ignoring_case rt (String_trim rt (lp_username payload)) (a_username (uc_admin cfg))
          \<and> lp_password payload = a_password (uc_admin cfg)
      | Operator \<Rightarrow>
          list_ex (\<lambda>oper. op_active oper
                       \<and> same_ignoring_case rt (String_trim rt (lp_username payload))
                            (op_username oper)
                       \<and> lp_password payload = op_password oper) (uc_operators cfg))"

section \<open>Examples\<close>

definition example_env :: env where
  "example_env = \<lparr>fails = (\<lambda>c. False), uid = (\<lambda>k. replicate (Suc k) CHR ''u''), now = ''t1''\<rparr>"

definition example_product :: Product where
  "example_product =
     \<lparr>p_id = ''A'', p_name = ''Camisa'', p_color = ''Azul'', p_stock = 5, p_cost = 60,
      p_salePrice = 100, p_image = None, p_createdAt = ''t0''\<rparr>"

definition example_item :: OrderItemDraft where
  "example_item =
     \<lparr>it_product_id = Some ''A'', it_product_name = Some ''Camisa'', it_color = Some ''Azul'',
      it_qty = 2, it_unit_price = 100, it_subtotal = 200\<rparr>"

definition example_order :: OrderDraft where
  "example_order =
     \<lparr>o_kind = Sale, o_total = 150, o_payment_method = Some ''Efectivo'',
      o_performed_by_username = Some ''ana'', o_performed_by_role = Some Admin,
      o_client_id = Some ''C'', o_client_name = Some ''Carlos'',
      o_client_document_id = Some ''123'', o_client_phone = Some ''7654321'',
      o_delivery_address = Some ''Retiro en tienda'', o_subtotal = Some 200,
      o_discount = Some 50, o_notes = Some [], o_items = [example_item]\<rparr>"

definition example_db :: db where
  "example_db = empty_db\<lparr>products := [example_product]\<rparr>"

definition example_product_B :: Product where
  "example_product_B =
     \<lparr>p_id = ''B'', p_name = ''Zapatillas'', p_color = ''Negro'', p_stock = 1, p_cost = 340,
      p_salePrice = 520, p_image = None, p_createdAt = ''t0''\<rparr>"

definition example_item_B :: OrderItemDraft where
  "example_item_B =
     \<lparr>it_product_id = Some ''B'', it_product_name = Some ''Zapatillas'',
      it_color = Some ''Negro'', it_qty = 4, it_unit_price = 520, it_subtotal = 2080\<rparr>"

definition example_db_AB :: db where
  "example_db_AB = empty_db\<lparr>products := [example_product, example_product_B]\<rparr>"

definition stale_product :: Product where
  "stale_product = example_product\<lparr>p_stock := 2\<rparr>"

definition example_user :: User where
  "example_user = \<lparr>u_username = ''ana'', u_role = Admin\<rparr>"

definition example_client :: Client where
  "example_client =
     \<lparr>c_id = ''C'', c_name = ''Carlos'', c_documentId = ''123'', c_phone = ''7654321'',
      c_address = ''Calle Warnes 118'', c_createdAt = ''t0''\<rparr>"

definition example_page :: page where
  "example_page =
     \<lparr>pg_user = Some example_user, pg_selectedClient = Some example_client,
      pg_cart = [\<lparr>cl_product = example_product, cl_quantity = 2\<rparr>],
      pg_discount = Some 50, pg_paymentMethod = ''Efectivo'', pg_deliveryAddress = [],
      pg_notes = []\<rparr>"

definition example_ls :: localStorage where
  "example_ls =
     \<lparr>ls_tickets = Some (stringify (DEFAULT_TICKETS_CONFIG
         \<lparr>t_order := \<lparr>ts_nextNumber = IsNumber (Fin 7), ts_farewell = ''Gracias''\<rparr>\<rparr>)),
      ls_salesOrders = []\<rparr>"

definition example_ls_no_subtitle :: localStorage where
  "example_ls_no_subtitle =
     \<lparr>ls_tickets = Some \<lparr>st_companyName = ''AIJMIROSHOP'', st_subtitle = [],
                          st_sale = Some \<lparr>ts_nextNumber = IsNumber (Fin 1), ts_farewell = ''Gracias''\<rparr>,
                          st_order = Some \<lparr>ts_nextNumber = IsNumber (Fin 57), ts_farewell = ''Gracias''\<rparr>\<rparr>,
      ls_salesOrders = []\<rparr>"

definition example_ls_limit :: localStorage where
  "example_ls_limit =
     \<lparr>ls_tickets = Some (stringify (DEFAULT_TICKETS_CONFIG
         \<lparr>t_order := \<lparr>ts_nextNumber = IsNumber (Fin 9007199254740992),
                      ts_farewell = ''Gracias''\<rparr>\<rparr>)),
      ls_salesOrders = []\<rparr>"







definition example_users :: UsersConfig where
  "example_users =
     \<lparr>uc_admin = \<lparr>a_username = ''Anahi'', a_password = ''12345''\<rparr>,
      uc_operators =
        [\<lparr>op_id = ''op-1'', op_username = ''Operador'', op_password = ''12345'', op_active = True\<rparr>,
         \<lparr>op_id = ''op-2'', op_username = ''Baja'', op_password = ''abc'', op_active = False\<rparr>,
         \<lparr>op_id = ''op-3'', op_username = [CHR 0xC3, CHR 0x81] @ ''ngel'', op_password = ''xyz'',
           op_active = True\<rparr>]\<rparr>"

text \<open>
  An engine for the examples: \<open>trim\<close> on the ASCII white space, and \<open>toLowerCase\<close> on
  the letters of ASCII and on the capital letters from U+00C0 to U+00DE, whose UTF-8
  encoding is the byte C3 and a byte from 80 to 9E other than 97. On strings of these
  characters the two functions are the methods of the JavaScript engine.
\<close>

definition example_lower :: "char \<Rightarrow> char" where
  "example_lower c =
     (if 65 \<le> (of_char c :: nat) \<and> (of_char c :: nat) \<le> 90
      then char_of ((of_char c :: nat) + 32) else c)"

fun example_toLowerCase :: "string \<Rightarrow> string" where
  "example_toLowerCase [] = []"
| "example_toLowerCase [c] = [example_lower c]"
| "example_toLowerCase (c # d # s) =
     (if (of_char c :: nat) = 195 \<and> 128 \<le> (of_char d :: nat) \<and> (of_char d :: nat) \<le> 158
         \<and> (of_char d :: nat) \<noteq> 151
      then c # char_of ((of_char d :: nat) + 32) # example_toLowerCase s
      else example_lower c # example_toLowerCase (d # s))"

definition example_runtime :: runtime where
  "example_runtime = \<lparr>String_trim = trim, String_toLowerCase = example_toLowerCase\<rparr>"

definition example_form :: ProductFormState where
  "example_form =
     \<lparr>f_name = ''Gorra'', f_color = ''Rojo'', f_stock = ''-3'', f_cost = Some 10,
      f_salePrice = Some 15, f_imageFile = None, f_imagePreview = None\<rparr>"

section \<open>Carts and stock problems\<close>

lemma find_None_iff_ids: "(find (\<lambda>line. p_id (cl_product line) = i) c = None) = (i \<notin> (\<lambda>l. p_id (cl_product l)) ` set c)"
  by (auto simp: find_None_iff)

lemma cart_ids_add:
  "map (\<lambda>l. p_id (cl_product l)) (handleAddProduct prd c) =
     (if p_id prd \<in> (\<lambda>l. p_id (cl_product l)) ` set c then map (\<lambda>l. p_id (cl_product l)) c
      else map (\<lambda>l. p_id (cl_product l)) c @ [p_id prd])"
proof (cases "find (\<lambda>line. p_id (cl_product line) = p_id prd) c")
  case None
  then have "p_id prd \<notin> (\<lambda>l. p_id (cl_product l)) ` set c"
    by (simp add: find_None_iff_ids)
  then show ?thesis using None by (simp add: handleAddProduct_def)
next
  case (Some existing)
  then have "p_id prd \<in> (\<lambda>l. p_id (cl_product l)) ` set c"
    using find_None_iff_ids[of "p_id prd" c] by simp
  moreover have "map (\<lambda>l. p_id (cl_product l))
          (map (\<lambda>line. if p_id (cl_product line) = p_id prd
                       then line\<lparr>cl_quantity := min (cl_quantity line + 1) (p_stock prd)\<rparr>
                       else line) c) = map (\<lambda>l. p_id (cl_product l)) c"
    by (induction c) auto
  ultimately show ?thesis using Some by (simp add: handleAddProduct_def)
qed

lemma cart_ids_update:
  "map (\<lambda>l. p_id (cl_product l)) (handleUpdateQuantity productId quantity c) =
     map (\<lambda>l. p_id (cl_product l)) c"
  by (induction c) (auto simp: handleUpdateQuantity_def)

lemma cart_ids_adjust:
  "map (\<lambda>l. p_id (cl_product l)) (handleAdjustQuantity productId delta c) =
     map (\<lambda>l. p_id (cl_product l)) c"
  by (induction c) (auto simp: handleAdjustQuantity_def Let_def)

lemma built_distinct: "built c \<Longrightarrow> distinct (map (\<lambda>l. p_id (cl_product l)) c)"
proof (induction rule: built.induct)
  case built_empty
  show ?case by simp
next
  case (built_add c prd)
  then show ?case by (simp add: cart_ids_add)
next
  case (built_update c productId quantity)
  then show ?case by (simp add: cart_ids_update)
next
  case (built_adjust c productId delta)
  then show ?case by (simp add: cart_ids_adjust)
next
  case (built_remove c productId)
  then show ?case by (simp add: handleRemoveLine_def distinct_map_filter)
qed

lemma stock_problems_lists_offending:
  "stock_problems inventory c = map (problem_of inventory) (filter (offending inventory) c)"
  by (induction c) (auto simp: offending_def problem_of_def split: option.splits)

lemma stock_problems_nonempty:
  "(stock_problems inventory c \<noteq> []) = (\<exists>line \<in> set c. offending inventory line)"
  by (simp add: stock_problems_lists_offending filter_empty_conv)

section \<open>Stock after a sale\<close>

lemma select_stock_update_stock:
  "select_stock (update_stock q n ps) (Some pid) =
     (if q = Some pid then map_option (\<lambda>_. n) (select_stock ps (Some pid))
      else select_stock ps (Some pid))"
  by (induction ps) (auto simp: select_stock_def update_stock_def)

lemma decrement_stock_append:
  "decrement_stock e k (xs @ ys) ps =
     (case decrement_stock e k xs ps of
        (Some err, ps') \<Rightarrow> (Some err, ps')
      | (None, ps') \<Rightarrow> decrement_stock e (k + length xs) ys ps')"
  by (induction xs arbitrary: k ps) (auto simp: Let_def split: prod.splits option.splits)

lemma decrement_stock_other:
  "Some pid \<notin> it_product_id ` set its \<Longrightarrow>
   select_stock (snd (decrement_stock e k its ps)) (Some pid) = select_stock ps (Some pid)"
  by (induction its arbitrary: k ps) (auto simp: Let_def select_stock_update_stock)

lemma decrement_stock_exists:
  "(select_stock (snd (decrement_stock e k its ps)) (Some pid) = None) =
   (select_stock ps (Some pid) = None)"
  by (induction its arbitrary: k ps) (auto simp: Let_def select_stock_update_stock)

text \<open>
  A loop that ran to its end wrote, for line \<open>i\<close>, the clamped difference of the stock it
  read and the quantity of the line; the lines after \<open>i\<close> leave that row alone when none
  of them names the same product.
\<close>

lemma decrement_stock_line:
  assumes "decrement_stock e 0 its ps = (None, ps')"
    and "i < length its"
    and "it_product_id (its ! i) = Some pid"
    and "select_stock ps (Some pid) \<noteq> None"
    and "Some pid \<notin> it_product_id ` set (drop (Suc i) its)"
  shows "select_stock ps' (Some pid) = Some (max 0 (current_at e its ps i - it_qty (its ! i)))"
proof -
  let ?pre = "take i its" and ?it = "its ! i" and ?post = "drop (Suc i) its"
  have split: "its = ?pre @ ?it # ?post"
    using assms(2) by (simp add: id_take_nth_drop)
  obtain r1 ps1 where pre: "decrement_stock e 0 ?pre ps = (r1, ps1)"
    by (cases "decrement_stock e 0 ?pre ps")
  have whole: "decrement_stock e 0 (?pre @ ?it # ?post) ps = (None, ps')"
    using assms(1) split by simp
  have len: "length ?pre = i"
    using assms(2) by simp
  have "(case r1 of None \<Rightarrow> decrement_stock e i (?it # ?post) ps1 | Some err \<Rightarrow> (Some err, ps1))
          = (None, ps')"
    using whole pre len by (simp only: decrement_stock_append prod.case add_0)
  then have rest: "decrement_stock e i (?it # ?post) ps1 = (None, ps')"
    by (cases r1) simp_all
  have ex: "select_stock ps1 (Some pid) \<noteq> None"
    using decrement_stock_exists[of e 0 ?pre ps pid] pre assms(4) by simp
  then obtain s where s: "select_stock ps1 (Some pid) = Some s" by auto
  have cur: "current_at e its ps i = s"
    using pre s assms(3) by (simp add: current_at_def)
  let ?ps2 = "update_stock (Some pid) (max 0 (s - it_qty ?it)) ps1"
  have tail: "decrement_stock e (Suc i) ?post ?ps2 = (None, ps')"
    using rest s assms(3) by (auto simp: Let_def split: if_splits)
  have "select_stock ps' (Some pid) = select_stock ?ps2 (Some pid)"
    using decrement_stock_other[OF assms(5), of e "Suc i" ?ps2] tail by simp
  also have "\<dots> = Some (max 0 (s - it_qty ?it))"
    using s by (simp add: select_stock_update_stock)
  finally show ?thesis using cur by simp
qed

text \<open>
  Lines with pairwise different products: no later line names the product of line \<open>i\<close>.
\<close>

lemma distinct_no_later_line:
  assumes "distinct (map it_product_id its)" and "i < length its"
  shows "it_product_id (its ! i) \<notin> it_product_id ` set (drop (Suc i) its)"
proof -
  have "its = take i its @ its ! i # drop (Suc i) its"
    using assms(2) by (simp add: id_take_nth_drop)
  then have "distinct (map it_product_id (take i its @ its ! i # drop (Suc i) its))"
    using assms(1) by simp
  then show ?thesis by auto
qed

text \<open>
  A sale that \<open>createOrder\<close> carries through: the stock written for a line whose product
  has a row and is not named by a later line.
\<close>

lemma createOrder_sale_line:
  assumes "o_kind order = Sale"
    and "\<not> isl (fst (createOrder e order d))"
    and "i < length (o_items order)"
    and "it_product_id (o_items order ! i) = Some pid"
    and "select_stock (products d) (Some pid) \<noteq> None"
    and "Some pid \<notin> it_product_id ` set (drop (Suc i) (o_items order))"
  shows "select_stock (products (snd (createOrder e order d))) (Some pid) =
           Some (max 0 (current_at e (o_items order) (products d) i - it_qty (o_items order ! i)))"
proof -
  obtain r ps' where loop: "decrement_stock e 0 (o_items order) (products d) = (r, ps')"
    by (cases "decrement_stock e 0 (o_items order) (products d)")
  have "r = None \<and> products (snd (createOrder e order d)) = ps'"
    using assms(1,2) loop
    by (auto simp: createOrder_def Let_def split: if_splits option.splits)
  then show ?thesis
    using decrement_stock_line[OF _ assms(3,4,5,6), of e ps'] loop by simp
qed

text \<open>
  A submission of the page that is saved passed the validation, so every line's product
  has a row; the lines of a cart the page has built have pairwise different products.
\<close>

lemma stock_problems_empty_found:
  assumes "stock_problems inventory c = []" and "line \<in> set c"
  shows "\<exists>p. find (\<lambda>prd. p_id prd = p_id (cl_product line)) inventory = Some p
             \<and> cl_quantity line \<le> p_stock p"
proof -
  have "\<not> offending inventory line"
    using assms stock_problems_nonempty[of inventory c] by blast
  then show ?thesis
    by (auto simp: offending_def split: option.splits)
qed

lemma sale_items_ids:
  "map it_product_id (sale_items c) = map (\<lambda>l. Some (p_id (cl_product l))) c"
  by (simp add: sale_items_def)

lemma built_sale_items_distinct:
  assumes "built c"
  shows "distinct (map it_product_id (sale_items c))"
proof -
  have "distinct (map (\<lambda>l. p_id (cl_product l)) c)"
    using assms by (rule built_distinct)
  then have "distinct (map Some (map (\<lambda>l. p_id (cl_product l)) c))"
    by (rule distinct_map[THEN iffD2, OF conjI]) simp
  then show ?thesis
    by (simp only: sale_items_ids map_map comp_def)
qed

lemma handleSubmit_sale_Saved:
  assumes "fst (handleSubmit_sale e pg d) = Saved created"
  shows "\<exists>u cl. stock_problems (products d) (pg_cart pg) = []
           \<and> fst (createOrder e (sale_draft u cl pg) d) = Inr created
           \<and> snd (handleSubmit_sale e pg d) = snd (createOrder e (sale_draft u cl pg) d)"
  using assms
  by (auto simp: handleSubmit_sale_def listProducts_def Let_def
      split: option.splits if_splits sum.splits prod.splits) (metis fst_conv snd_conv)

lemma sale_submission_line:
  assumes "built (pg_cart pg)"
    and "fst (handleSubmit_sale e pg d) = Saved created"
    and "k < length (pg_cart pg)"
  shows "select_stock (products (snd (handleSubmit_sale e pg d)))
           (Some (p_id (cl_product (pg_cart pg ! k)))) =
         Some (max 0 (current_at e (sale_items (pg_cart pg)) (products d) k
                      - cl_quantity (pg_cart pg ! k)))"
proof -
  let ?c = "pg_cart pg" and ?pid = "p_id (cl_product (pg_cart pg ! k))"
  obtain u cl where ok: "stock_problems (products d) ?c = []"
      and cr: "fst (createOrder e (sale_draft u cl pg) d) = Inr created"
      and eq: "snd (handleSubmit_sale e pg d) = snd (createOrder e (sale_draft u cl pg) d)"
    using handleSubmit_sale_Saved[OF assms(2)] by blast
  let ?order = "sale_draft u cl pg"
  have items: "o_items ?order = sale_items ?c" and kind: "o_kind ?order = Sale"
    by (simp_all add: sale_draft_def)
  have len: "k < length (o_items ?order)"
    using assms(3) by (simp add: items sale_items_def)
  have nth: "o_items ?order ! k =
      \<lparr>it_product_id = Some ?pid, it_product_name = Some (p_name (cl_product (?c ! k))),
       it_color = Some (p_color (cl_product (?c ! k))), it_qty = cl_quantity (?c ! k),
       it_unit_price = p_salePrice (cl_product (?c ! k)),
       it_subtotal = p_salePrice (cl_product (?c ! k)) * of_int (cl_quantity (?c ! k))\<rparr>"
    using assms(3) by (simp add: items sale_items_def)
  have pid: "it_product_id (o_items ?order ! k) = Some ?pid" and qty: "it_qty (o_items ?order ! k) = cl_quantity (?c ! k)"
    by (simp_all add: nth)
  have "?c ! k \<in> set ?c" using assms(3) by simp
  then have ex: "select_stock (products d) (Some ?pid) \<noteq> None"
    using stock_problems_empty_found[OF ok, of "?c ! k"] by (auto simp: select_stock_def)
  have "it_product_id (o_items ?order ! k) \<notin> it_product_id ` set (drop (Suc k) (o_items ?order))"
    using distinct_no_later_line[OF _ len] built_sale_items_distinct[OF assms(1)] items by simp
  then have later: "Some ?pid \<notin> it_product_id ` set (drop (Suc k) (o_items ?order))"
    using pid by simp
  have notl: "\<not> isl (fst (createOrder e ?order d))"
    using cr by simp
  have "select_stock (products (snd (createOrder e ?order d))) (Some ?pid) =
          Some (max 0 (current_at e (o_items ?order) (products d) k - it_qty (o_items ?order ! k)))"
    by (rule createOrder_sale_line[OF kind notl len pid ex later])
  then show ?thesis
    using eq items qty by simp
qed

text \<open>
  C1. A sale submission of the register-sale page that is carried through, with a cart
  the page has built: for every line of the cart, the stock of the line's product in the
  store after the submission is \<open>max 0 (stockBefore - qty)\<close>, where \<open>stockBefore\<close> is
  the stock the loop of \<open>createOrder\<close> read just before it decremented that line
  (\<open>current_at\<close>) and \<open>qty\<close> is the quantity of the line. The same holds of
  \<open>createOrder\<close> called with any sale order that it carries through, for every line
  whose product has a row and is not named again by a later line of the order.
\<close>

theorem sale_stock_after_submission:
  "(built (pg_cart pg) \<and> fst (handleSubmit_sale e pg d) = Saved created \<and> k < length (pg_cart pg) \<longrightarrow>
      select_stock (products (snd (handleSubmit_sale e pg d)))
          (Some (p_id (cl_product (pg_cart pg ! k)))) =
        Some (max 0 (current_at e (sale_items (pg_cart pg)) (products d) k
                     - cl_quantity (pg_cart pg ! k))))
   \<and> (o_kind order = Sale \<and> \<not> isl (fst (createOrder e order d)) \<and> i < length (o_items order)
        \<and> it_product_id (o_items order ! i) = Some pid
        \<and> select_stock (products d) (Some pid) \<noteq> None
        \<and> Some pid \<notin> it_product_id ` set (drop (Suc i) (o_items order)) \<longrightarrow>
      select_stock (products (snd (createOrder e order d))) (Some pid) =
        Some (max 0 (current_at e (o_items order) (products d) i - it_qty (o_items order ! i))))"
  using sale_submission_line[of pg e d created k] createOrder_sale_line[of order e d i pid]
  by blast

theorem sale_stock_after_submission_witness:
  "built (pg_cart example_page)
   \<and> select_stock (products (snd (handleSubmit_sale example_env example_page example_db))) (Some ''A'')
       = Some 3
   \<and> current_at example_env [example_item, example_item_B] (products example_db_AB) 1 = 1
   \<and> select_stock (products (snd (createOrder example_env
         (example_order\<lparr>o_items := [example_item, example_item_B]\<rparr>) example_db_AB))) (Some ''B'')
       = Some 0"
proof -
  let ?order = "example_order\<lparr>o_items := [example_item, example_item_B]\<rparr>"
  have cart: "pg_cart example_page = handleAddProduct example_product (handleAddProduct example_product [])"
    by (simp add: example_page_def handleAddProduct_def example_product_def)
  have b: "built (pg_cart example_page)"
    unfolding cart by (intro built.intros)
  have "case fst (handleSubmit_sale example_env example_page example_db) of
          Saved _ \<Rightarrow> True | _ \<Rightarrow> False"
    by code_simp
  then obtain created where s: "fst (handleSubmit_sale example_env example_page example_db) = Saved created"
    by (auto split: outcome.splits)
  have k: "(0::nat) < length (pg_cart example_page)
           \<and> p_id (cl_product (pg_cart example_page ! 0)) = ''A''
           \<and> cl_quantity (pg_cart example_page ! 0) = 2"
    by (simp add: example_page_def example_product_def)
  have cur0: "current_at example_env (sale_items (pg_cart example_page)) (products example_db) 0 = 5"
    by (simp add: current_at_def sale_items_def example_page_def example_db_def empty_db_def
        example_product_def select_stock_def)
  have cur: "current_at example_env [example_item, example_item_B] (products example_db_AB) 1 = 1"
    by (simp add: current_at_def example_env_def example_item_def example_item_B_def
        example_db_AB_def example_product_def example_product_B_def empty_db_def
        select_stock_def update_stock_def Let_def)
  have ok: "\<not> isl (fst (createOrder example_env ?order example_db_AB))"
    by (simp add: createOrder_def example_env_def example_order_def Let_def split: prod.splits option.splits)
  have h: "o_kind ?order = Sale \<and> (1::nat) < length (o_items ?order)
           \<and> it_product_id (o_items ?order ! 1) = Some ''B''
           \<and> it_qty (o_items ?order ! 1) = 4
           \<and> select_stock (products example_db_AB) (Some ''B'') \<noteq> None
           \<and> Some ''B'' \<notin> it_product_id ` set (drop (Suc 1) (o_items ?order))"
    by (simp add: example_order_def example_item_B_def example_db_AB_def
          example_product_def example_product_B_def empty_db_def select_stock_def)
  show ?thesis
    using sale_stock_after_submission
            [where pg = example_page and e = example_env and d = example_db
               and created = created and k = 0]
          sale_stock_after_submission
            [where order = ?order and e = example_env and d = example_db_AB and i = 1
               and pid = "''B''"]
          b s k cur0 cur ok h
    by simp
qed

section \<open>Insufficient stock\<close>

text \<open>
  C2. A sale submission in which some cart line asks for more than the stock just re-read,
  or names a product that no longer exists, stores nothing: the store after the
  submission is the store before it (no order header, no order item, no stock change)
  and no order is saved. When the submission reaches the re-read of the inventory (a user
  and a client are there, the discount is within the subtotal, the read succeeds), it is
  rejected with the insufficient-stock error, whose list has one entry for every
  offending line of the cart, in the order of the cart.
\<close>

theorem handleSubmit_sale_insufficient_stock:
  assumes "\<exists>line \<in> set (pg_cart pg). offending (products d) line"
  shows "snd (handleSubmit_sale e pg d) = d
       \<and> (\<forall>created. fst (handleSubmit_sale e pg d) \<noteq> Saved created)
       \<and> (pg_user pg \<noteq> None \<and> pg_selectedClient pg \<noteq> None \<and> discountAmount pg \<le> subtotal (pg_cart pg)
            \<and> \<not> fails e SelectProducts \<longrightarrow>
          fst (handleSubmit_sale e pg d) =
            Rejected (StockInsufficient (map (problem_of (products d)) (filter (offending (products d)) (pg_cart pg)))))"
proof -
  have ne: "stock_problems (products d) (pg_cart pg) \<noteq> []"
    using assms by (simp add: stock_problems_nonempty)
  have c: "pg_cart pg \<noteq> []" using assms by auto
  show ?thesis
    using ne c
    by (auto simp: handleSubmit_sale_def listProducts_def Let_def stock_problems_lists_offending
        split: option.splits)
qed


theorem handleSubmit_sale_insufficient_stock_witness:
  "fst (handleSubmit_sale example_env
          (example_page\<lparr>pg_cart := [\<lparr>cl_product = example_product, cl_quantity = 9\<rparr>]\<rparr>) example_db)
     = Rejected (StockInsufficient [InsufficientStock ''Camisa'' ''Azul'' 5 9])
   \<and> snd (handleSubmit_sale example_env
          (example_page\<lparr>pg_cart := [\<lparr>cl_product = example_product, cl_quantity = 9\<rparr>]\<rparr>) example_db)
     = example_db"
  using handleSubmit_sale_insufficient_stock
    [of "example_page\<lparr>pg_cart := [\<lparr>cl_product = example_product, cl_quantity = 9\<rparr>]\<rparr>"
        example_db example_env]
  by (simp add: example_page_def example_db_def empty_db_def example_product_def example_env_def
      offending_def problem_of_def discountAmount_def subtotal_def)

section \<open>Failure of a step of createOrder\<close>

text \<open>
  The loop up to a line \<open>n\<close> before which no request fails returns without an error; a
  loop whose first failing request belongs to line \<open>i\<close> throws and leaves the table as
  the first \<open>i\<close> lines made it.
\<close>

lemma decrement_stock_prefix:
  assumes "\<forall>j<n. \<not> fails e (SelectStock (k + j)) \<and> \<not> fails e (UpdateStock (k + j))"
  shows "fst (decrement_stock e k (take n its) ps) = None"
  using assms
proof (induction its arbitrary: k n ps)
  case Nil
  then show ?case by simp
next
  case (Cons it its)
  show ?case
  proof (cases n)
    case 0
    then show ?thesis by simp
  next
    case (Suc m)
    have here: "\<not> fails e (SelectStock k) \<and> \<not> fails e (UpdateStock k)"
      using Cons.prems Suc by force
    have rest: "\<forall>j<m. \<not> fails e (SelectStock (Suc k + j)) \<and> \<not> fails e (UpdateStock (Suc k + j))"
      using Cons.prems Suc by force
    show ?thesis
      using here Suc Cons.IH[OF rest] by (simp add: Let_def)
  qed
qed

lemma decrement_stock_fails_at:
  assumes "i < length its"
    and "\<forall>j<i. \<not> fails e (SelectStock j) \<and> \<not> fails e (UpdateStock j)"
    and "fails e (SelectStock i) \<or> fails e (UpdateStock i)"
  shows "fst (decrement_stock e 0 its ps) \<noteq> None
       \<and> snd (decrement_stock e 0 its ps) = snd (decrement_stock e 0 (take i its) ps)"
proof -
  let ?pre = "take i its" and ?rest = "its ! i # drop (Suc i) its"
  have split: "its = ?pre @ ?rest"
    using assms(1) by (simp add: id_take_nth_drop)
  have len: "length ?pre = i"
    using assms(1) by simp
  obtain r ps1 where pre: "decrement_stock e 0 ?pre ps = (r, ps1)"
    by (cases "decrement_stock e 0 ?pre ps")
  have "fst (decrement_stock e 0 ?pre ps) = None"
    using decrement_stock_prefix[of i e 0 its ps] assms(2) by simp
  then have r: "r = None" using pre by simp
  have "decrement_stock e 0 (?pre @ ?rest) ps = decrement_stock e i ?rest ps1"
    using pre r len by (simp only: decrement_stock_append prod.case option.case add_0)
  then have whole: "decrement_stock e 0 its ps = decrement_stock e i ?rest ps1"
    using split by simp
  have "fst (decrement_stock e i ?rest ps1) \<noteq> None \<and> snd (decrement_stock e i ?rest ps1) = ps1"
    using assms(3) by (auto simp: Let_def)
  then show ?thesis
    using whole pre by simp
qed

text \<open>
  C3. A failing step of \<open>createOrder\<close> ends the call with its error, no later step
  runs, and what earlier steps wrote stays. When the insert of the order header fails,
  nothing is written. When it succeeds and the insert of the order items fails,
  \<open>createOrder\<close> throws the error of the items insert: the store holds the new header
  row, and its order items and every product (so every stock) are what they were before
  the call. When the first failing request is the read or the write of the stock of line
  \<open>i\<close> of a sale, the header and the items stay stored and the products are as the
  decrements of the first \<open>i\<close> lines left them.
\<close>

theorem createOrder_failure_not_rolled_back:
  "(fails e InsertOrder \<longrightarrow> createOrder e order d = (Inl (StorageError InsertOrder), d))
   \<and> (\<not> fails e InsertOrder \<and> fails e InsertOrderItems \<longrightarrow>
        fst (createOrder e order d) = Inl (StorageError InsertOrderItems)
        \<and> orders (snd (createOrder e order d)) =
            orders d @ [\<lparr>o_id = uid e 0, o_fields = order,
                          o_sequence = orders_sequence d + 1, o_created_at = now e\<rparr>]
        \<and> order_items (snd (createOrder e order d)) = order_items d
        \<and> products (snd (createOrder e order d)) = products d)
   \<and> (o_kind order = Sale \<and> \<not> fails e InsertOrder \<and> \<not> fails e InsertOrderItems
        \<and> i < length (o_items order)
        \<and> (\<forall>j<i. \<not> fails e (SelectStock j) \<and> \<not> fails e (UpdateStock j))
        \<and> (fails e (SelectStock i) \<or> fails e (UpdateStock i)) \<longrightarrow>
        isl (fst (createOrder e order d))
        \<and> orders (snd (createOrder e order d)) =
            orders d @ [\<lparr>o_id = uid e 0, o_fields = order,
                          o_sequence = orders_sequence d + 1, o_created_at = now e\<rparr>]
        \<and> order_items (snd (createOrder e order d)) =
            order_items d @ itemsPayload e (uid e 0) (o_items order)
        \<and> products (snd (createOrder e order d)) =
            snd (decrement_stock e 0 (take i (o_items order)) (products d)))"
proof (intro conjI impI)
  assume "fails e InsertOrder"
  then show "createOrder e order d = (Inl (StorageError InsertOrder), d)"
    by (simp add: createOrder_def)
next
  assume h: "\<not> fails e InsertOrder \<and> fails e InsertOrderItems"
  then show "fst (createOrder e order d) = Inl (StorageError InsertOrderItems)"
    and "orders (snd (createOrder e order d)) =
            orders d @ [\<lparr>o_id = uid e 0, o_fields = order,
                          o_sequence = orders_sequence d + 1, o_created_at = now e\<rparr>]"
    and "order_items (snd (createOrder e order d)) = order_items d"
    and "products (snd (createOrder e order d)) = products d"
    by (simp_all add: createOrder_def Let_def)
next
  assume h: "o_kind order = Sale \<and> \<not> fails e InsertOrder \<and> \<not> fails e InsertOrderItems
        \<and> i < length (o_items order)
        \<and> (\<forall>j<i. \<not> fails e (SelectStock j) \<and> \<not> fails e (UpdateStock j))
        \<and> (fails e (SelectStock i) \<or> fails e (UpdateStock i))"
  obtain r ps' where loop: "decrement_stock e 0 (o_items order) (products d) = (r, ps')"
    by (cases "decrement_stock e 0 (o_items order) (products d)")
  have f: "r \<noteq> None \<and> ps' = snd (decrement_stock e 0 (take i (o_items order)) (products d))"
    using decrement_stock_fails_at[of i "o_items order" e "products d"] h loop by simp
  then obtain err where r: "r = Some err" by auto
  show "isl (fst (createOrder e order d))"
    and "orders (snd (createOrder e order d)) =
            orders d @ [\<lparr>o_id = uid e 0, o_fields = order,
                          o_sequence = orders_sequence d + 1, o_created_at = now e\<rparr>]"
    and "order_items (snd (createOrder e order d)) =
            order_items d @ itemsPayload e (uid e 0) (o_items order)"
    and "products (snd (createOrder e order d)) =
            snd (decrement_stock e 0 (take i (o_items order)) (products d))"
    using h loop r f by (simp_all add: createOrder_def Let_def)
qed

theorem createOrder_failure_not_rolled_back_witness:
  "fst (createOrder (example_env\<lparr>fails := (\<lambda>c. c = InsertOrderItems)\<rparr>) example_order example_db)
     = Inl (StorageError InsertOrderItems)
   \<and> length (orders (snd (createOrder (example_env\<lparr>fails := (\<lambda>c. c = InsertOrderItems)\<rparr>)
        example_order example_db))) = 1
   \<and> order_items (snd (createOrder (example_env\<lparr>fails := (\<lambda>c. c = InsertOrderItems)\<rparr>)
        example_order example_db)) = []
   \<and> products (snd (createOrder (example_env\<lparr>fails := (\<lambda>c. c = InsertOrderItems)\<rparr>)
        example_order example_db)) = [example_product]
   \<and> createOrder (example_env\<lparr>fails := (\<lambda>c. c = InsertOrder)\<rparr>) example_order example_db
       = (Inl (StorageError InsertOrder), example_db)
   \<and> map p_stock (products (snd (createOrder (example_env\<lparr>fails := (\<lambda>c. c = UpdateStock 1)\<rparr>)
        (example_order\<lparr>o_items := [example_item, example_item_B]\<rparr>) example_db_AB))) = [3, 1]"
proof -
  let ?e2 = "example_env\<lparr>fails := (\<lambda>c. c = UpdateStock 1)\<rparr>"
  let ?order = "example_order\<lparr>o_items := [example_item, example_item_B]\<rparr>"
  have pre: "map p_stock (snd (decrement_stock ?e2 0 (take 1 (o_items ?order)) (products example_db_AB)))
               = [3, 1]"
    by (simp add: example_order_def example_item_def example_db_AB_def empty_db_def
        example_product_def example_product_B_def example_env_def select_stock_def
        update_stock_def Let_def)
  have h: "o_kind ?order = Sale \<and> (1::nat) < length (o_items ?order)"
    by (simp add: example_order_def)
  show ?thesis
    using createOrder_failure_not_rolled_back
            [where e = "example_env\<lparr>fails := (\<lambda>c. c = InsertOrderItems)\<rparr>"
               and order = example_order and d = example_db]
          createOrder_failure_not_rolled_back
            [where e = "example_env\<lparr>fails := (\<lambda>c. c = InsertOrder)\<rparr>"
               and order = example_order and d = example_db]
          createOrder_failure_not_rolled_back
            [where e = ?e2 and order = ?order and d = example_db_AB and i = 1]
          pre h
    by (simp add: example_db_def empty_db_def)
qed

section \<open>Ticket numbers of sales orders\<close>

subsection \<open>Doubles\<close>

lemma bits_numeral:
  "bits 0 = 0" "bits 1 = 1" "bits (numeral k) = Suc (bits (numeral k div 2))"
  by (simp_all add: bits.simps)

lemma quotient_of_of_int: "quotient_of (of_int m) = (m, 1)"
  by (metis Rat.of_int_def quotient_of_int)

lemma bits_bounds: "0 < n \<Longrightarrow> 2 ^ (bits n - 1) \<le> n \<and> n < 2 ^ bits n"
proof (induction n rule: bits.induct)
  case (1 n)
  have b: "bits n = Suc (bits (n div 2))"
    using "1.prems" by (subst bits.simps) simp
  show ?case
  proof (cases "n div 2 \<le> 0")
    case True
    then have "n = 1" using "1.prems" by presburger
    then show ?thesis by (simp add: bits_numeral)
  next
    case False
    then have ih: "2 ^ (bits (n div 2) - 1) \<le> n div 2 \<and> n div 2 < 2 ^ bits (n div 2)"
      using "1.IH" "1.prems" by simp
    obtain k where k: "bits (n div 2) = Suc k"
      using False by (subst (asm) bits.simps) (cases "bits (n div 2)", simp_all add: bits.simps)
    have "2 * 2 ^ k \<le> 2 * (n div 2)"
      using ih k by simp
    also have "\<dots> \<le> n" by presburger
    finally have l: "2 ^ (bits n - 1) \<le> n"
      using b k by simp
    have "n < 2 * (n div 2) + 2" by presburger
    also have "\<dots> \<le> 2 * 2 ^ bits (n div 2)"
      using ih by simp
    finally have u: "n < 2 ^ bits n"
      using b by simp
    show ?thesis using l u by simp
  qed
qed

lemma round_half_even_int: "round_half_even (of_int k) = k"
  by (simp add: round_half_even_def)

lemma exponent_int:
  assumes "1 \<le> m"
  shows "exponent (of_int m) = int (bits m) - 1"
proof -
  have bb: "2 ^ (bits m - 1) \<le> m" and pos: "0 < bits m"
    using bits_bounds[of m] assms by (auto simp: bits.simps[of m])
  have "(2::rat) ^ (bits m - 1) \<le> of_int m"
    using bb by (metis of_int_le_iff of_int_numeral of_int_power)
  then have "pow2 (int (bits m) - 1) \<le> of_int m"
    using pos by (simp add: pow2_def nat_diff_distrib')
  then show ?thesis
    by (simp add: exponent_def quotient_of_of_int bits_numeral)
qed

text \<open>Every whole number from 1 to \<open>2^53\<close> is a double.\<close>

lemma to_double_int:
  assumes "1 \<le> m" and "m \<le> 2 ^ 53"
  shows "to_double (of_int m) = Fin (of_int m)"
proof -
  let ?e = "int (bits m) - 1"
  have bb: "2 ^ (bits m - 1) \<le> m" and pos: "0 < bits m"
    using bits_bounds[of m] assms by (auto simp: bits.simps[of m])
  have p53: "(2::int) ^ (bits m - 1) \<le> 2 ^ 53"
    using bb assms(2) by linarith
  have le: "bits m - 1 \<le> 53"
  proof (rule power_le_imp_le_exp[of "2::int"])
    show "(1::int) < 2" by simp
    show "(2::int) ^ (bits m - 1) \<le> 2 ^ 53" by (fact p53)
  qed
  have e: "max (exponent (of_int m)) (- 1022) = ?e"
    using exponent_int[OF assms(1)] by simp
  have "\<exists>k. (of_int m :: rat) / pow2 (?e - 52) = of_int k"
  proof (cases "bits m - 1 = 53")
    case True
    then have "(2::int) ^ 53 \<le> m" using bb by simp
    then have m: "m = 2 ^ 53" using assms(2) by simp
    have "?e - 52 = 1" using True pos by simp
    then have "pow2 (?e - 52) = 2" by (simp add: pow2_def)
    then have "(of_int m :: rat) / pow2 (?e - 52) = of_int (2 ^ 52)"
      using m by simp
    then show ?thesis by blast
  next
    case False
    then have "?e - 52 \<le> 0" using le pos by linarith
    then have "pow2 (?e - 52) = 1 / 2 ^ nat (52 - ?e)"
      by (cases "?e - 52 = 0") (simp_all add: pow2_def)
    then have "(of_int m :: rat) / pow2 (?e - 52) = of_int (m * 2 ^ nat (52 - ?e))"
      by simp
    then show ?thesis by blast
  qed
  then obtain k where k: "(of_int m :: rat) / pow2 (?e - 52) = of_int k" by blast
  have p: "pow2 (?e - 52) \<noteq> 0"
    by (simp add: pow2_def)
  have y: "of_int (round_half_even (of_int m / pow2 (?e - 52))) * pow2 (?e - 52) = (of_int m :: rat)"
    using k p by (simp add: round_half_even_int nonzero_divide_eq_eq)
  have "(of_int m :: rat) \<le> 2 ^ 53"
    using assms(2) by (metis of_int_le_iff of_int_numeral of_int_power)
  then have small: "\<not> pow2 1024 \<le> (of_int m :: rat)"
    by (simp add: pow2_def)
  have "\<bar>of_int m :: rat\<bar> = of_int m" "(of_int m :: rat) \<noteq> 0" "0 < (of_int m :: rat)"
    using assms(1) by simp_all
  then show ?thesis
    using e y small by (simp add: to_double_def Let_def)
qed

text \<open>\<open>2^53 + 1\<close> is not: it lies half way between two doubles and is rounded to \<open>2^53\<close>.\<close>

lemma to_double_limit: "to_double 9007199254740993 = Fin 9007199254740992"
proof -
  have e: "exponent 9007199254740993 = 53"
    using quotient_of_of_int[of 9007199254740993]
    by (simp add: exponent_def pow2_def bits_numeral)
  have fl: "\<lfloor>(9007199254740993::rat) / 2\<rfloor> = 4503599627370496"
    by (simp add: floor_eq_iff)
  have "round_half_even (9007199254740993 / 2) = 4503599627370496"
    by (simp add: round_half_even_def Let_def fl)
  then show ?thesis
    by (simp add: to_double_def e pow2_def Let_def)
qed

subsection \<open>Rounding a sum\<close>

text \<open>
  The exponent of a positive rational is the one of its binade, and rounding moves a
  number by at most half a unit in the last place. So below \<open>2^53\<close>, where that unit
  is at most 2, adding one gives a greater double.
\<close>

lemma pow2_powi: "pow2 k = 2 powi k"
  by (simp add: pow2_def power_int_def inverse_eq_divide power_one_over)

lemma pow2_pos: "0 < pow2 k"
  by (simp add: pow2_powi)

lemma pow2_diff: "pow2 (a - b) = pow2 a / pow2 b"
  by (simp add: pow2_powi power_int_diff)

lemma pow2_mono: "a \<le> b \<Longrightarrow> pow2 a \<le> pow2 b"
  unfolding pow2_powi by (rule power_int_increasing) simp_all

lemma pow2_less_cancel:
  assumes "pow2 a < pow2 b"
  shows "a < b"
proof (rule ccontr)
  assume "\<not> a < b"
  then have "pow2 b \<le> pow2 a" by (intro pow2_mono) simp
  then show False using assms by simp
qed

lemma pow2_of_nat: "pow2 (int n) = 2 ^ n"
  by (simp add: pow2_def)

lemma bits_bounds_rat:
  assumes "0 < n"
  shows "pow2 (int (bits n) - 1) \<le> of_int n" and "of_int n < pow2 (int (bits n))"
proof -
  have bb: "2 ^ (bits n - 1) \<le> n" "n < 2 ^ bits n" and pos: "0 < bits n"
    using bits_bounds[of n] assms by (auto simp: bits.simps[of n])
  have "(2::rat) ^ (bits n - 1) \<le> of_int n"
    using bb(1) by (metis of_int_le_iff of_int_numeral of_int_power)
  then show "pow2 (int (bits n) - 1) \<le> of_int n"
    using pos by (simp add: pow2_def nat_diff_distrib')
  have "of_int n < (2::rat) ^ bits n"
    using bb(2) by (metis of_int_less_iff of_int_numeral of_int_power)
  then show "of_int n < pow2 (int (bits n))"
    by (simp add: pow2_of_nat)
qed

lemma exponent_bounds:
  assumes "0 < m"
  shows "pow2 (exponent m) \<le> m" and "m < pow2 (exponent m + 1)"
proof -
  obtain a b where q: "quotient_of m = (a, b)"
    by (cases "quotient_of m")
  have b: "0 < b" using q by (rule quotient_of_denom_pos)
  have m: "m = of_int a / of_int b" using q by (rule quotient_of_div)
  have a: "0 < a"
    using assms b m by (simp add: zero_less_divide_iff)
  let ?e0 = "int (bits a) - int (bits b)"
  note A = bits_bounds_rat[OF a] and B = bits_bounds_rat[OF b]
  have "of_int a / of_int b < pow2 (int (bits a)) / pow2 (int (bits b) - 1)"
    using A(2) B(1) a b by (intro frac_less) (simp_all add: pow2_pos)
  then have up: "m < pow2 (?e0 + 1)"
    using m pow2_diff[of "int (bits a)" "int (bits b) - 1"] by (simp add: algebra_simps)
  have "pow2 (int (bits a) - 1) / pow2 (int (bits b)) < of_int a / of_int b"
    using A(1) B(2) a b by (intro frac_less2) (simp_all add: pow2_pos)
  then have lo: "pow2 (?e0 - 1) < m"
    using m pow2_diff[of "int (bits a) - 1" "int (bits b)"] by (simp add: algebra_simps)
  have e: "exponent m = (if pow2 ?e0 \<le> m then ?e0 else ?e0 - 1)"
    using q by (simp add: exponent_def Let_def)
  show "pow2 (exponent m) \<le> m"
    using e lo by (auto simp: not_le)
  show "m < pow2 (exponent m + 1)"
    using e up by (auto simp: not_le)
qed

lemma round_half_even_error: "\<bar>of_int (round_half_even q) - q\<bar> \<le> 1 / 2"
proof -
  define f where "f = \<lfloor>q\<rfloor>"
  have "of_int f \<le> q" "q < of_int f + 1"
    unfolding f_def by linarith+
  then have r: "\<bar>of_int (if q - of_int f < 1 / 2 then f
                            else if 1 / 2 < q - of_int f then f + 1
                            else if even f then f else f + 1) - q\<bar> \<le> 1 / 2"
    by (auto simp: abs_if)
  show ?thesis
    unfolding round_half_even_def Let_def f_def[symmetric] by (rule r)
qed

lemma to_double_succ:
  assumes "1 \<le> x" and "x < 2 ^ 53"
  shows "\<exists>y. to_double (x + 1) = Fin y \<and> x < y"
proof -
  define m where "m = x + 1"
  define e where "e = exponent m"
  define u where "u = pow2 (e - 52)"
  define k where "k = round_half_even (m / u)"
  define y where "y = of_int k * u"
  have mpos: "0 < m" and m2: "2 \<le> m" and mlt: "m < 2 ^ 53 + 1"
    using assms by (simp_all add: m_def)
  have eb: "pow2 e \<le> m" "m < pow2 (e + 1)"
    unfolding e_def by (rule exponent_bounds[OF mpos])+
  have "pow2 1 < pow2 (e + 1)"
    using eb(2) m2 by (simp add: pow2_def)
  then have e1: "1 \<le> e"
    using pow2_less_cancel by fastforce
  have "pow2 e < pow2 54"
    using eb(1) mlt by (simp add: pow2_def)
  then have e53: "e \<le> 53"
    using pow2_less_cancel by fastforce
  have upos: "0 < u" unfolding u_def by (rule pow2_pos)
  have "y - m = (of_int k - m / u) * u"
    using upos by (simp add: y_def left_diff_distrib)
  then have "\<bar>y - m\<bar> = \<bar>of_int k - m / u\<bar> * u"
    using upos by (simp add: abs_mult)
  also have "\<dots> \<le> (1 / 2) * u"
    using round_half_even_error[of "m / u"] upos
    unfolding k_def by (intro mult_right_mono) simp_all
  finally have err: "\<bar>y - m\<bar> \<le> u / 2" by simp
  have u2: "u \<le> 2"
    using pow2_mono[of "e - 52" 1] e53 by (simp add: u_def pow2_def)
  have gt: "x < y"
  proof (cases "e = 53")
    case True
    then have u: "u = 2" by (simp add: u_def pow2_def)
    have "pow2 53 \<le> m" using eb(1) True by simp
    then have lo: "2 ^ 53 - 1 \<le> x" by (simp add: pow2_def m_def)
    have ge: "x \<le> y" using err u by (simp add: m_def abs_if split: if_splits)
    show ?thesis
    proof (rule ccontr)
      assume "\<not> x < y"
      then have "y = x" using ge by simp
      then have "(of_int 9007199254740991 :: rat) \<le> of_int (2 * k)"
        "(of_int (2 * k) :: rat) < of_int 9007199254740992"
        using lo assms(2) u by (simp_all add: y_def)
      then have "9007199254740991 \<le> 2 * k" "2 * k < 9007199254740992"
        by (simp_all only: of_int_le_iff of_int_less_iff)
      then show False by presburger
    qed
  next
    case False
    then have "e - 52 \<le> 0" using e53 by simp
    then have "u \<le> 1"
      using pow2_mono[of "e - 52" 0] by (simp add: u_def pow2_def)
    then show ?thesis
      using err by (simp add: m_def abs_if split: if_splits)
  qed
  have "y \<le> 2 ^ 53 + 2"
    using err u2 mlt by (simp add: abs_if split: if_splits)
  then have small: "\<not> pow2 1024 \<le> y"
    by (simp add: pow2_def)
  have "max e (- 1022) = e" using e1 by simp
  then have "to_double m = Fin y"
    using mpos small by (simp add: to_double_def Let_def e_def[symmetric] u_def[symmetric]
        k_def[symmetric] y_def[symmetric])
  then show ?thesis
    using gt by (auto simp: m_def)
qed

lemma plus_1_greater:
  assumes "1 \<le> x" and "x < 2 ^ 53"
  shows "\<exists>y. plus_1 (Fin x) = Fin y \<and> x < y"
  using to_double_succ[OF assms] by (simp add: plus_1_def)

lemma plus_1_int:
  assumes "0 \<le> n" and "n < 2 ^ 53"
  shows "plus_1 (Fin (of_int n)) = Fin (of_int n + 1)"
  using to_double_int[of "n + 1"] assms by (simp add: plus_1_def)

lemma plus_1_limit: "plus_1 (Fin 9007199254740992) = Fin 9007199254740992"
  using to_double_limit by (simp add: plus_1_def)

subsection \<open>The number drawn and the counter written\<close>

lemma assigned_number_eq: "max_1 (number_or_1 n) = assigned_number n"
  by (auto simp: number_or_1_def max_1_def assigned_number_def split: number.splits)

lemma getTicketsConfig_valid:
  "t_companyName (getTicketsConfig ls) \<noteq> [] \<and> t_subtitle (getTicketsConfig ls) \<noteq> []"
  by (auto simp: getTicketsConfig_def DEFAULT_TICKETS_CONFIG_def split: option.splits)

lemma getTicketsConfig_read_counter:
  "Number (ts_nextNumber (t_order (getTicketsConfig ls))) = read_counter ls"
  by (auto simp: getTicketsConfig_def read_counter_def usable_def DEFAULT_TICKETS_CONFIG_def
      split: option.splits)

lemma stored_counter_saved:
  assumes "t_companyName cfg \<noteq> []" and "t_subtitle cfg \<noteq> []"
    and "ls_tickets ls' = Some (stringify cfg)"
  shows "stored_counter ls' = Some (Number (json (ts_nextNumber (t_order cfg))))"
    and "read_counter ls' = Number (json (ts_nextNumber (t_order cfg)))"
  using assms by (simp_all add: stored_counter_def read_counter_def usable_def stringify_def)

lemma handleSubmit_order_Saved:
  assumes "fst (handleSubmit_order e pg ls) = Saved ord"
  shows "so_sequence ord = Some (assigned_number (read_counter ls))"
    and "ls_tickets (snd (handleSubmit_order e pg ls)) =
           (if fails e SetItemTicketsConfig then ls_tickets ls
            else Some (stringify ((getTicketsConfig ls)
                   \<lparr>t_order := (t_order (getTicketsConfig ls))
                      \<lparr>ts_nextNumber := IsNumber (plus_1 (assigned_number (read_counter ls)))\<rparr>\<rparr>)))"
  using assms
  by (auto simp: handleSubmit_order_def Let_def assigned_number_eq saveTicketsConfig_def
      persistSalesOrder_def getTicketsConfig_read_counter split: option.splits if_splits)

lemma handleSubmit_order_counter:
  assumes "fst (handleSubmit_order e pg ls) = Saved ord" and "\<not> fails e SetItemTicketsConfig"
  shows "stored_counter (snd (handleSubmit_order e pg ls)) =
           Some (Number (json (IsNumber (plus_1 (assigned_number (read_counter ls))))))"
    and "read_counter (snd (handleSubmit_order e pg ls)) =
           Number (json (IsNumber (plus_1 (assigned_number (read_counter ls)))))"
proof -
  let ?cfg = "getTicketsConfig ls"
  let ?upd = "?cfg\<lparr>t_order := (t_order ?cfg)
                 \<lparr>ts_nextNumber := IsNumber (plus_1 (assigned_number (read_counter ls)))\<rparr>\<rparr>"
  have valid: "t_companyName ?upd \<noteq> []" "t_subtitle ?upd \<noteq> []"
    using getTicketsConfig_valid[of ls] by simp_all
  have w: "ls_tickets (snd (handleSubmit_order e pg ls)) = Some (stringify ?upd)"
    using handleSubmit_order_Saved(2)[OF assms(1)] assms(2) by simp
  show "stored_counter (snd (handleSubmit_order e pg ls)) =
           Some (Number (json (IsNumber (plus_1 (assigned_number (read_counter ls))))))"
    using stored_counter_saved(1)[OF valid w] by simp
  show "read_counter (snd (handleSubmit_order e pg ls)) =
           Number (json (IsNumber (plus_1 (assigned_number (read_counter ls)))))"
    using stored_counter_saved(2)[OF valid w] by simp
qed

lemma handleSubmit_order_counter_fin:
  assumes "fst (handleSubmit_order e pg ls) = Saved ord" and "\<not> fails e SetItemTicketsConfig"
    and "so_sequence ord = Some (Fin x)" and "x < 2 ^ 53"
  shows "\<exists>y. stored_counter (snd (handleSubmit_order e pg ls)) = Some (Fin y)
             \<and> read_counter (snd (handleSubmit_order e pg ls)) = Fin y
             \<and> x < y \<and> (\<forall>n. x = of_int n \<longrightarrow> y = of_int n + 1)"
proof -
  have a: "assigned_number (read_counter ls) = Fin x"
    using handleSubmit_order_Saved(1)[OF assms(1)] assms(3) by simp
  then have x1: "1 \<le> x"
    by (auto simp: assigned_number_def split: number.splits if_splits)
  obtain y where y: "plus_1 (Fin x) = Fin y" "x < y"
    using plus_1_greater[OF x1 assms(4)] by blast
  have w: "\<forall>n. x = of_int n \<longrightarrow> y = of_int n + 1"
  proof (intro allI impI)
    fix n :: int
    assume n: "x = of_int n"
    have "(of_int 1 :: rat) \<le> of_int n"
      using n x1 by simp
    then have n0: "0 \<le> n"
      by (simp only: of_int_le_iff)
    have "(of_int n :: rat) < of_int 9007199254740992"
      using n assms(4) by simp
    then have "n < 9007199254740992"
      by (simp only: of_int_less_iff)
    then have "n < 2 ^ 53"
      by simp
    with n0 have "plus_1 (Fin (of_int n)) = Fin (of_int n + 1)"
      by (rule plus_1_int)
    then show "y = of_int n + 1"
      using y(1) n by simp
  qed
  have "stored_counter (snd (handleSubmit_order e pg ls)) = Some (Fin y)"
    using handleSubmit_order_counter(1)[OF assms(1,2)] a y(1) by simp
  moreover have "read_counter (snd (handleSubmit_order e pg ls)) = Fin y"
    using handleSubmit_order_counter(2)[OF assms(1,2)] a y(1) by simp
  ultimately show ?thesis
    using y(2) w by blast
qed

lemma example_order_saved:
  "\<exists>ord. fst (handleSubmit_order example_env example_page ls) = Saved ord"
  by (simp add: handleSubmit_order_def example_page_def discountAmount_def subtotal_def
      example_product_def Let_def)

lemma example_sequence_of:
  "sequence_of (fst (handleSubmit_order example_env example_page ls))
     = Some (assigned_number (read_counter ls))"
proof -
  obtain ord where ord: "fst (handleSubmit_order example_env example_page ls) = Saved ord"
    using example_order_saved by blast
  show ?thesis
    using handleSubmit_order_Saved(1)[OF ord] ord by (simp add: sequence_of_def)
qed

lemma example_env_accepts: "\<not> fails example_env SetItemTicketsConfig"
  by (simp add: example_env_def)

lemma example_ls_limit_counter:
  "stored_counter example_ls_limit = Some (Fin 9007199254740992)"
  "read_counter example_ls_limit = Fin 9007199254740992"
  by (simp_all add: example_ls_limit_def stored_counter_def read_counter_def usable_def
      stringify_def DEFAULT_TICKETS_CONFIG_def)

lemma example_ls_limit_after:
  "stored_counter (snd (handleSubmit_order example_env example_page example_ls_limit))
     = Some (Fin 9007199254740992)"
  "read_counter (snd (handleSubmit_order example_env example_page example_ls_limit))
     = Fin 9007199254740992"
proof -
  obtain ord where ord: "fst (handleSubmit_order example_env example_page example_ls_limit) = Saved ord"
    using example_order_saved by blast
  have a: "assigned_number (read_counter example_ls_limit) = Fin 9007199254740992"
    by (simp add: example_ls_limit_counter assigned_number_def)
  show "stored_counter (snd (handleSubmit_order example_env example_page example_ls_limit))
     = Some (Fin 9007199254740992)"
    using handleSubmit_order_counter(1)[OF ord example_env_accepts] a plus_1_limit by simp
  show "read_counter (snd (handleSubmit_order example_env example_page example_ls_limit))
     = Fin 9007199254740992"
    using handleSubmit_order_counter(2)[OF ord example_env_accepts] a plus_1_limit by simp
qed

text \<open>
  C4, as the specification states it, does not hold, in two ways. The stored document
  of \<open>example_ls_no_subtitle\<close> has an empty subtitle and 57 as the counter of its
  order side: the submission does not draw from that counter, the order gets the
  number 1. The stored counter of \<open>example_ls_limit\<close> is \<open>2^53\<close>: the order gets the
  number \<open>2^53\<close>, the write of the configuration is accepted, and the counter written
  back is \<open>2^53\<close> again, not the assigned number plus one.
\<close>

theorem sales_order_sequence_counterexample:
  "stored_counter example_ls_no_subtitle = Some (Fin 57)
   \<and> sequence_of (fst (handleSubmit_order example_env example_page example_ls_no_subtitle))
       = Some (Fin 1)
   \<and> stored_counter example_ls_limit = Some (Fin 9007199254740992)
   \<and> sequence_of (fst (handleSubmit_order example_env example_page example_ls_limit))
       = Some (Fin 9007199254740992)
   \<and> \<not> fails example_env SetItemTicketsConfig
   \<and> stored_counter (snd (handleSubmit_order example_env example_page example_ls_limit))
       = Some (Fin 9007199254740992)"
proof -
  have "stored_counter example_ls_no_subtitle = Some (Fin 57)"
    by (simp add: example_ls_no_subtitle_def stored_counter_def)
  moreover have "read_counter example_ls_no_subtitle = Fin 1"
    by (simp add: example_ls_no_subtitle_def read_counter_def usable_def)
  then have "sequence_of (fst (handleSubmit_order example_env example_page example_ls_no_subtitle))
       = Some (Fin 1)"
    by (simp add: example_sequence_of assigned_number_def)
  moreover have "sequence_of (fst (handleSubmit_order example_env example_page example_ls_limit))
       = Some (Fin 9007199254740992)"
    by (simp add: example_sequence_of example_ls_limit_counter assigned_number_def)
  ultimately show ?thesis
    using example_ls_limit_counter(1) example_ls_limit_after(1) example_env_accepts by simp
qed

text \<open>
  C4, amended. A sales-order submission that is carried out draws the order's sequence
  number from the counter that \<open>getTicketsConfig\<close> hands it (\<open>read_counter\<close>): the
  \<open>nextNumber\<close> of the order side of the stored document when the document has a
  company name, a subtitle and both sides, and the default counter 1 otherwise. The
  number is that counter, or 1 when the counter is not a number, is zero or is below 1.
  The configuration handed to the write is the one read, with the counter of the order
  side set to the double nearest to the assigned number plus one; a refused write
  leaves the stored document as it was. When the assigned number is finite and below
  \<open>2^53\<close> and the write is accepted, the stored counter after the submission is a
  number above the assigned one, it is the assigned number plus one when that is a
  whole number, and it is the counter that the next submission reads.
\<close>

theorem sales_order_sequence_from_read_counter:
  assumes "fst (handleSubmit_order e pg ls) = Saved ord"
  shows "so_sequence ord = Some (assigned_number (read_counter ls))
       \<and> ls_tickets (snd (handleSubmit_order e pg ls)) =
           (if fails e SetItemTicketsConfig then ls_tickets ls
            else Some (stringify ((getTicketsConfig ls)
                   \<lparr>t_order := (t_order (getTicketsConfig ls))
                      \<lparr>ts_nextNumber := IsNumber (plus_1 (assigned_number (read_counter ls)))\<rparr>\<rparr>)))
       \<and> (\<forall>x. so_sequence ord = Some (Fin x) \<and> x < 2 ^ 53
               \<and> \<not> fails e SetItemTicketsConfig \<longrightarrow>
            (\<exists>y. stored_counter (snd (handleSubmit_order e pg ls)) = Some (Fin y)
                 \<and> read_counter (snd (handleSubmit_order e pg ls)) = Fin y
                 \<and> x < y \<and> (\<forall>n. x = of_int n \<longrightarrow> y = of_int n + 1)))"
proof -
  have "\<forall>x. so_sequence ord = Some (Fin x) \<and> x < 2 ^ 53
               \<and> \<not> fails e SetItemTicketsConfig \<longrightarrow>
            (\<exists>y. stored_counter (snd (handleSubmit_order e pg ls)) = Some (Fin y)
                 \<and> read_counter (snd (handleSubmit_order e pg ls)) = Fin y
                 \<and> x < y \<and> (\<forall>n. x = of_int n \<longrightarrow> y = of_int n + 1))"
  proof (intro allI impI, elim conjE)
    fix x
    assume "so_sequence ord = Some (Fin x)" and "x < 2 ^ 53" and "\<not> fails e SetItemTicketsConfig"
    then show "\<exists>y. stored_counter (snd (handleSubmit_order e pg ls)) = Some (Fin y)
                 \<and> read_counter (snd (handleSubmit_order e pg ls)) = Fin y
                 \<and> x < y \<and> (\<forall>n. x = of_int n \<longrightarrow> y = of_int n + 1)"
      using handleSubmit_order_counter_fin[OF assms] by blast
  qed
  then show ?thesis
    using handleSubmit_order_Saved[OF assms] by simp
qed

theorem sales_order_sequence_from_read_counter_witness:
  "\<exists>ord. fst (handleSubmit_order example_env example_page example_ls) = Saved ord
     \<and> stored_counter example_ls = Some (Fin 7)
     \<and> so_sequence ord = Some (Fin 7)
     \<and> stored_counter (snd (handleSubmit_order example_env example_page example_ls))
         = Some (Fin 8)"
proof -
  obtain ord where ord: "fst (handleSubmit_order example_env example_page example_ls) = Saved ord"
    using example_order_saved by blast
  have c: "stored_counter example_ls = Some (Fin 7)" "read_counter example_ls = Fin 7"
    by (simp_all add: example_ls_def stored_counter_def read_counter_def usable_def
        stringify_def DEFAULT_TICKETS_CONFIG_def)
  then have n: "assigned_number (read_counter example_ls) = Fin 7"
    by (simp add: assigned_number_def)
  note t = sales_order_sequence_from_read_counter[OF ord]
  have s: "so_sequence ord = Some (Fin 7)"
    using t n by simp
  obtain y where y: "stored_counter (snd (handleSubmit_order example_env example_page example_ls))
                       = Some (Fin y)"
      and w: "\<forall>n. (7::rat) = of_int n \<longrightarrow> y = of_int n + 1"
    using t[THEN conjunct2, THEN conjunct2, THEN spec, of 7] s example_env_accepts by auto
  have "y = 8"
    using w[THEN spec, of 7] by simp
  then show ?thesis
    using ord c s y by auto
qed

text \<open>
  C5, as the specification states it, does not hold. Two submissions follow each other
  from \<open>example_ls_limit\<close>, whose counter is \<open>2^53\<close>; the write of the first is
  accepted and the second reads the configuration that the first wrote. Both orders get
  the number \<open>2^53\<close>.
\<close>

theorem sequential_sales_orders_counterexample:
  "\<not> fails example_env SetItemTicketsConfig
   \<and> sequence_of (fst (handleSubmit_order example_env example_page example_ls_limit))
       = Some (Fin 9007199254740992)
   \<and> sequence_of (fst (handleSubmit_order example_env example_page
         (snd (handleSubmit_order example_env example_page example_ls_limit))))
       = Some (Fin 9007199254740992)"
  by (simp add: example_sequence_of example_ls_limit_counter example_ls_limit_after
      assigned_number_def example_env_accepts)

text \<open>
  C5, amended. Two sales-order submissions, one after the other, the second starting
  from the localStorage that the first left, where the first's write of the
  configuration was accepted and the first order's number is finite and below \<open>2^53\<close>:
  the second order's number is strictly greater than the first's, and it is the first's
  plus one when the first's is a whole number. (After a refused write the second
  submission reads the counter that the first read, and from \<open>2^53\<close> on the counter
  that is written back need not be above the number drawn.)
\<close>

theorem sequential_sales_orders_increase:
  assumes "fst (handleSubmit_order e1 pg1 ls) = Saved o1"
    and "\<not> fails e1 SetItemTicketsConfig"
    and "fst (handleSubmit_order e2 pg2 (snd (handleSubmit_order e1 pg1 ls))) = Saved o2"
    and "so_sequence o1 = Some (Fin x)"
    and "x < 2 ^ 53"
  shows "\<exists>y. so_sequence o2 = Some (Fin y) \<and> x < y
             \<and> (\<forall>n. x = of_int n \<longrightarrow> y = of_int n + 1)"
proof -
  obtain y where y: "read_counter (snd (handleSubmit_order e1 pg1 ls)) = Fin y" "x < y"
      and w: "\<forall>n. x = of_int n \<longrightarrow> y = of_int n + 1"
    using handleSubmit_order_counter_fin[OF assms(1,2,4,5)] by blast
  have "assigned_number (read_counter ls) = Fin x"
    using handleSubmit_order_Saved(1)[OF assms(1)] assms(4) by simp
  then have "1 \<le> x"
    by (auto simp: assigned_number_def split: number.splits if_splits)
  then have "assigned_number (Fin y) = Fin y"
    using y(2) by (simp add: assigned_number_def)
  then have "so_sequence o2 = Some (Fin y)"
    using handleSubmit_order_Saved(1)[OF assms(3)] y(1) by simp
  then show ?thesis
    using y(2) w by blast
qed

theorem sequential_sales_orders_increase_witness:
  "\<exists>o1 o2. fst (handleSubmit_order example_env example_page example_ls) = Saved o1
     \<and> fst (handleSubmit_order example_env example_page
           (snd (handleSubmit_order example_env example_page example_ls))) = Saved o2
     \<and> so_sequence o1 = Some (Fin 7) \<and> so_sequence o2 = Some (Fin 8)"
proof -
  obtain o1 where o1: "fst (handleSubmit_order example_env example_page example_ls) = Saved o1"
    using example_order_saved by blast
  obtain o2 where o2: "fst (handleSubmit_order example_env example_page
           (snd (handleSubmit_order example_env example_page example_ls))) = Saved o2"
    using example_order_saved by blast
  have "read_counter example_ls = Fin 7"
    by (simp add: example_ls_def read_counter_def usable_def stringify_def
        DEFAULT_TICKETS_CONFIG_def)
  then have s1: "so_sequence o1 = Some (Fin 7)"
    using handleSubmit_order_Saved(1)[OF o1] by (simp add: assigned_number_def)
  obtain y where y: "so_sequence o2 = Some (Fin y)"
      and w: "\<forall>n. (7::rat) = of_int n \<longrightarrow> y = of_int n + 1"
    using sequential_sales_orders_increase[OF o1 example_env_accepts o2 s1] by auto
  have "y = 8"
    using w[THEN spec, of 7] by simp
  then show ?thesis
    using o1 o2 s1 y by auto
qed

section \<open>Discount above the subtotal\<close>

text \<open>
  C6. A submission whose discount exceeds the subtotal, on the register-sale page and on
  the sales-order page alike: the store (the database, the localStorage) is left as it
  was, the result is the same whatever the requests to the store would have answered (no
  request is made), and a logged-in user gets a validation error, which is the discount
  error once a client is selected and the cart is not empty.
\<close>

theorem discount_over_subtotal_rejected:
  assumes "discountAmount pg > subtotal (pg_cart pg)"
  shows "snd (handleSubmit_sale e pg d) = d
       \<and> snd (handleSubmit_order e' pg ls) = ls
       \<and> handleSubmit_sale e pg d = handleSubmit_sale e2 pg d
       \<and> handleSubmit_order e' pg ls = handleSubmit_order e2' pg ls
       \<and> (pg_user pg \<noteq> None \<longrightarrow>
            (\<exists>err. fst (handleSubmit_sale e pg d) = Rejected err)
            \<and> (\<exists>err. fst (handleSubmit_order e' pg ls) = Rejected err))
       \<and> (pg_user pg \<noteq> None \<and> pg_selectedClient pg \<noteq> None \<and> pg_cart pg \<noteq> [] \<longrightarrow>
            fst (handleSubmit_sale e pg d) = Rejected DiscountOverSubtotal
            \<and> fst (handleSubmit_order e' pg ls) = Rejected DiscountOverSubtotal)"
  using assms
  by (auto simp: handleSubmit_sale_def handleSubmit_order_def split: option.splits)

theorem discount_over_subtotal_rejected_witness:
  "discountAmount (example_page\<lparr>pg_discount := Some 250\<rparr>) > subtotal (pg_cart (example_page\<lparr>pg_discount := Some 250\<rparr>))
   \<and> handleSubmit_sale example_env (example_page\<lparr>pg_discount := Some 250\<rparr>) example_db
       = (Rejected DiscountOverSubtotal, example_db)
   \<and> handleSubmit_order example_env (example_page\<lparr>pg_discount := Some 250\<rparr>) example_ls
       = (Rejected DiscountOverSubtotal, example_ls)"
proof -
  let ?pg = "example_page\<lparr>pg_discount := Some 250\<rparr>"
  have h: "discountAmount ?pg > subtotal (pg_cart ?pg)"
    by (simp add: example_page_def discountAmount_def subtotal_def example_product_def)
  have u: "pg_user ?pg \<noteq> None \<and> pg_selectedClient ?pg \<noteq> None \<and> pg_cart ?pg \<noteq> []"
    by (simp add: example_page_def)
  show ?thesis
    using discount_over_subtotal_rejected
            [OF h, where e = example_env and d = example_db and e' = example_env and ls = example_ls]
          h u
    by (simp add: prod_eq_iff)
qed

section \<open>Stock is never negative\<close>

lemma upsertProduct_stock_nonneg:
  assumes "stock_nonneg d" and "0 \<le> pi_stock p"
  shows "stock_nonneg (snd (upsertProduct e p d))"
  using assms
  by (auto simp: upsertProduct_def stock_nonneg_def Let_def list_all_iff split: option.splits)

lemma update_stock_nonneg:
  "list_all (\<lambda>p. 0 \<le> p_stock p) ps \<Longrightarrow> 0 \<le> n \<Longrightarrow>
   list_all (\<lambda>p. 0 \<le> p_stock p) (update_stock q n ps)"
  by (auto simp: update_stock_def list_all_iff)

lemma decrement_stock_nonneg:
  "list_all (\<lambda>p. 0 \<le> p_stock p) ps \<Longrightarrow>
   list_all (\<lambda>p. 0 \<le> p_stock p) (snd (decrement_stock e k its ps))"
  by (induction its arbitrary: k ps) (auto simp: Let_def update_stock_nonneg)

lemma createOrder_stock_nonneg:
  assumes "stock_nonneg d"
  shows "stock_nonneg (snd (createOrder e order d))"
proof -
  have "list_all (\<lambda>p. 0 \<le> p_stock p) (snd (decrement_stock e 0 (o_items order) (products d)))"
    using assms by (simp add: stock_nonneg_def decrement_stock_nonneg)
  then show ?thesis
    using assms
    by (auto simp: createOrder_def stock_nonneg_def Let_def split: prod.splits option.splits)
qed

lemma handleSubmit_inventory_stock_nonneg:
  assumes "stock_nonneg d"
  shows "stock_nonneg (snd (handleSubmit_inventory e formState editingProduct d))"
  using assms
  by (auto simp: handleSubmit_inventory_def Let_def upsertProduct_stock_nonneg split: option.splits)

lemma importedProduct_stock:
  "importedProduct row = Some p \<Longrightarrow> 0 \<le> pi_stock p"
  by (auto simp: importedProduct_def split: if_splits option.splits)

lemma handleSubmit_sale_effect:
  "snd (handleSubmit_sale e pg d) = d
   \<or> (\<exists>order. snd (handleSubmit_sale e pg d) = snd (createOrder e order d))"
  by (auto simp: handleSubmit_sale_def listProducts_def Let_def
      split: option.splits sum.splits prod.splits if_splits) (metis snd_conv)+

text \<open>
  C7. Starting from a store in which no product has a negative stock (the empty store the
  schema creates, for one), every store the application reaches has a stock of at least
  0 for every product: the product form and the import reject a negative stock, and the
  decrement of a sale writes \<open>max 0 (current - qty)\<close>. In such a store the product form
  with a negative stock, creating or editing, ends in an error of the form and leaves
  the store as it is.
\<close>

lemma handleSubmit_inventory_negative_stock:
  assumes "parseInt10 (f_stock formState) = Some n" and "n < 0"
  shows "\<exists>err. handleSubmit_inventory e formState editingProduct d' = (Inl err, d')"
  using assms by (simp add: handleSubmit_inventory_def)

theorem stock_never_negative:
  assumes "stock_nonneg d0" and "reachable d0 d"
  shows "(\<forall>p \<in> set (products d). 0 \<le> p_stock p)
       \<and> (\<forall>n. parseInt10 (f_stock formState) = Some n \<and> n < 0 \<longrightarrow>
            (\<exists>err. handleSubmit_inventory e formState editingProduct d = (Inl err, d)))"
proof -
  have "stock_nonneg d"
    using assms(2)
  proof (induction rule: reachable.induct)
    case start
    show ?case by (rule assms(1))
  next
    case (inventory_submit d e formState editingProduct)
    then show ?case by (simp add: handleSubmit_inventory_stock_nonneg)
  next
    case (inventory_import d row p e)
    then show ?case by (simp add: upsertProduct_stock_nonneg importedProduct_stock)
  next
    case (inventory_delete d e i)
    then show ?case by (auto simp: deleteProduct_def stock_nonneg_def list_all_iff)
  next
    case (sale_submit d e pg)
    then show ?case
      using handleSubmit_sale_effect[of e pg d] by (auto simp: createOrder_stock_nonneg)
  next
    case (order_create d e order)
    then show ?case by (simp add: createOrder_stock_nonneg)
  next
    case (client_upsert d e c)
    then show ?case
      by (auto simp: upsertClient_def stock_nonneg_def Let_def split: option.splits)
  next
    case (client_delete d e i)
    then show ?case by (auto simp: deleteClient_def stock_nonneg_def)
  next
    case (order_delete d e i)
    then show ?case by (auto simp: deleteOrder_def stock_nonneg_def)
  next
    case (orders_clear d e)
    then show ?case by (auto simp: clearOrders_def stock_nonneg_def)
  qed
  then have "\<forall>p \<in> set (products d). 0 \<le> p_stock p"
    by (simp add: stock_nonneg_def list_all_iff)
  then show ?thesis
    using handleSubmit_inventory_negative_stock[of formState _ e editingProduct d] by blast
qed

theorem stock_never_negative_witness:
  "stock_nonneg example_db_AB
   \<and> reachable example_db_AB
        (snd (createOrder example_env (example_order\<lparr>o_items := [example_item_B]\<rparr>) example_db_AB))
   \<and> map p_stock (products
        (snd (createOrder example_env (example_order\<lparr>o_items := [example_item_B]\<rparr>) example_db_AB)))
       = [5, 0]
   \<and> list_all (\<lambda>p. 0 \<le> p_stock p) (products
        (snd (createOrder example_env (example_order\<lparr>o_items := [example_item_B]\<rparr>) example_db_AB)))
   \<and> parseInt10 (f_stock example_form) = Some (- 3)
   \<and> (\<exists>err. handleSubmit_inventory example_env example_form None
          (snd (createOrder example_env (example_order\<lparr>o_items := [example_item_B]\<rparr>) example_db_AB))
        = (Inl err,
           snd (createOrder example_env (example_order\<lparr>o_items := [example_item_B]\<rparr>) example_db_AB)))"
proof -
  let ?d = "snd (createOrder example_env (example_order\<lparr>o_items := [example_item_B]\<rparr>) example_db_AB)"
  have s0: "stock_nonneg example_db_AB"
    by (simp add: stock_nonneg_def example_db_AB_def example_product_def example_product_B_def)
  have r: "reachable example_db_AB ?d"
    by (rule reachable.order_create[OF reachable.start])
  have v: "map p_stock (products ?d) = [5, 0]"
    by (simp add: createOrder_def example_env_def example_order_def example_item_B_def
        example_db_AB_def example_product_def example_product_B_def empty_db_def
        select_stock_def update_stock_def Let_def)
  have n: "parseInt10 (f_stock example_form) = Some (- 3)"
    by code_simp
  show ?thesis
    using stock_never_negative
            [OF s0 r, where formState = example_form and e = example_env and editingProduct = None]
          s0 r v n
    by (simp add: list_all_iff)
qed

section \<open>Upsert\<close>












section \<open>Login\<close>

text \<open>
  C9. For every engine, role, username and password, against the configuration that
  \<open>getUsersConfig\<close> returns: \<open>login\<close> succeeds exactly when the credentials match;
  when they do not, whatever the reason (no such user, a wrong password, an operator
  that is not active), the response is the one failure with the one message, and the
  session is left as it was; a success carries the role asked for and the name of a
  record that matches, as it is stored, and becomes the session's user.
\<close>

theorem login_iff_credentials_match:
  "((\<exists>usr. fst (login rt remote payload st) = Success usr)
      = credentials_match rt (getUsersConfig remote) payload)
   \<and> (\<not> credentials_match rt (getUsersConfig remote) payload \<longrightarrow>
        login rt remote payload st = (Failure INVALID_CREDENTIALS, st))
   \<and> (\<forall>usr. fst (login rt remote payload st) = Success usr \<longrightarrow>
        u_role usr = lp_role payload \<and> snd (login rt remote payload st) = Some usr
        \<and> (lp_role payload = Admin \<longrightarrow>
             u_username usr = a_username (uc_admin (getUsersConfig remote)))
        \<and> (lp_role payload = Operator \<longrightarrow>
             (\<exists>oper \<in> set (uc_operators (getUsersConfig remote)).
                 u_username usr = op_username oper \<and> op_active oper
                 \<and> same_ignoring_case rt (String_trim rt (lp_username payload)) (op_username oper)
                 \<and> lp_password payload = op_password oper)))"
proof (cases "lp_role payload")
  case Admin
  then show ?thesis
    by (auto simp: login_def credentials_match_def same_ignoring_case_def Let_def)
next
  case Operator
  let ?P = "\<lambda>oper. op_active oper
                 \<and> String_toLowerCase rt (op_username oper)
                     = String_toLowerCase rt (String_trim rt (lp_username payload))
                 \<and> op_password oper = lp_password payload"
  show ?thesis
  proof (cases "find ?P (uc_operators (getUsersConfig remote))")
    case None
    then have "\<not> credentials_match rt (getUsersConfig remote) payload"
      using Operator
      by (auto simp: credentials_match_def same_ignoring_case_def find_None_iff list_ex_iff)
    then show ?thesis using None Operator by (simp add: login_def Let_def)
  next
    case (Some found)
    then have f: "found \<in> set (uc_operators (getUsersConfig remote)) \<and> ?P found"
      by (auto simp: find_Some_iff)
    then have m: "credentials_match rt (getUsersConfig remote) payload"
      using Operator
      by (auto simp: credentials_match_def same_ignoring_case_def list_ex_iff)
    have l: "login rt remote payload st =
               (Success \<lparr>u_username = op_username found, u_role = Operator\<rparr>,
                Some \<lparr>u_username = op_username found, u_role = Operator\<rparr>)"
      using Some Operator by (simp add: login_def Let_def)
    have "\<exists>oper \<in> set (uc_operators (getUsersConfig remote)).
             op_username found = op_username oper \<and> op_active oper
             \<and> same_ignoring_case rt (String_trim rt (lp_username payload)) (op_username oper)
             \<and> lp_password payload = op_password oper"
      using f by (intro bexI[of _ found]) (simp_all add: same_ignoring_case_def)
    then show ?thesis
      using m l Operator by simp
  qed
qed

theorem login_iff_credentials_match_witness:
  "fst (login example_runtime (Some example_users)
          \<lparr>lp_username = '' ANAHI '', lp_password = ''12345'', lp_role = Admin\<rparr> None)
     = Success \<lparr>u_username = ''Anahi'', u_role = Admin\<rparr>
   \<and> snd (login example_runtime (Some example_users)
          \<lparr>lp_username = '' ANAHI '', lp_password = ''12345'', lp_role = Admin\<rparr> None)
     = Some \<lparr>u_username = ''Anahi'', u_role = Admin\<rparr>
   \<and> fst (login example_runtime (Some example_users)
          \<lparr>lp_username = '' '' @ [CHR 0xC3, CHR 0xA1] @ ''NGEL'', lp_password = ''xyz'',
            lp_role = Operator\<rparr> None)
     = Success \<lparr>u_username = [CHR 0xC3, CHR 0x81] @ ''ngel'', u_role = Operator\<rparr>
   \<and> fst (login example_runtime (Some example_users)
          \<lparr>lp_username = ''Anahi'', lp_password = ''1234'', lp_role = Admin\<rparr> None)
     = Failure INVALID_CREDENTIALS
   \<and> fst (login example_runtime (Some example_users)
          \<lparr>lp_username = ''Nadie'', lp_password = ''12345'', lp_role = Operator\<rparr> None)
     = Failure INVALID_CREDENTIALS
   \<and> fst (login example_runtime (Some example_users)
          \<lparr>lp_username = ''Baja'', lp_password = ''abc'', lp_role = Operator\<rparr> None)
     = Failure INVALID_CREDENTIALS"
proof -
  let ?ok = "\<lparr>lp_username = '' ANAHI '', lp_password = ''12345'', lp_role = Admin\<rparr>"
  let ?wrong = "\<lparr>lp_username = ''Anahi'', lp_password = ''1234'', lp_role = Admin\<rparr>"
  let ?unknown = "\<lparr>lp_username = ''Nadie'', lp_password = ''12345'', lp_role = Operator\<rparr>"
  let ?inactive = "\<lparr>lp_username = ''Baja'', lp_password = ''abc'', lp_role = Operator\<rparr>"
  have n: "\<not> credentials_match example_runtime (getUsersConfig (Some example_users)) ?wrong
           \<and> \<not> credentials_match example_runtime (getUsersConfig (Some example_users)) ?unknown
           \<and> \<not> credentials_match example_runtime (getUsersConfig (Some example_users)) ?inactive"
    by code_simp
  have ok: "fst (login example_runtime (Some example_users) ?ok None)
              = Success \<lparr>u_username = ''Anahi'', u_role = Admin\<rparr>"
    by code_simp
  have ok2: "fst (login example_runtime (Some example_users)
          \<lparr>lp_username = '' '' @ [CHR 0xC3, CHR 0xA1] @ ''NGEL'', lp_password = ''xyz'',
            lp_role = Operator\<rparr> None)
     = Success \<lparr>u_username = [CHR 0xC3, CHR 0x81] @ ''ngel'', u_role = Operator\<rparr>"
    by code_simp
  have s: "snd (login example_runtime (Some example_users) ?ok None)
             = Some \<lparr>u_username = ''Anahi'', u_role = Admin\<rparr>"
    using login_iff_credentials_match[of example_runtime "Some example_users" ?ok None] ok
    by simp
  show ?thesis
    using login_iff_credentials_match[of example_runtime "Some example_users" ?wrong None]
          login_iff_credentials_match[of example_runtime "Some example_users" ?unknown None]
          login_iff_credentials_match[of example_runtime "Some example_users" ?inactive None]
          n ok ok2 s
    by simp
qed

section \<open>Quantities in the cart\<close>

lemma set_and_adjust_keep_quantity_in_range:
  assumes "cart_ok c"
  shows "cart_ok (handleUpdateQuantity productId quantity c)"
    and "cart_ok (handleAdjustQuantity productId delta c)"
  using assms
  by (auto simp: handleUpdateQuantity_def handleAdjustQuantity_def cart_ok_def line_ok_def
      list_all_iff Let_def)

lemma add_new_line_keeps_quantity_in_range:
  assumes "cart_ok c" and "1 \<le> p_stock prd"
    and "find (\<lambda>line. p_id (cl_product line) = p_id prd) c = None"
  shows "cart_ok (handleAddProduct prd c)"
  using assms by (simp add: handleAddProduct_def cart_ok_def line_ok_def)

text \<open>
  C10 does not hold of \<open>handleAddProduct\<close>. When the cart already has a line for the
  product, the handler caps the new quantity by the stock of the record it is given,
  not by the stock of the record that the line holds, as \<open>handleUpdateQuantity\<close> and
  \<open>handleAdjustQuantity\<close> do. From the empty cart, a product with stock 2 is added
  twice; the page then has a newer record of the same product, with stock 5, and that
  record is added. Every product added has stock at least 1, the cart before the last
  step is in range, and after it the line has quantity 3 and holds the record with
  stock 2.
\<close>

theorem handleAddProduct_exceeds_snapshot:
  "1 \<le> p_stock stale_product \<and> 1 \<le> p_stock example_product
   \<and> p_id example_product = p_id stale_product
   \<and> handleAddProduct stale_product (handleAddProduct stale_product [])
       = [\<lparr>cl_product = stale_product, cl_quantity = 2\<rparr>]
   \<and> cart_ok (handleAddProduct stale_product (handleAddProduct stale_product []))
   \<and> handleAddProduct example_product
        (handleAddProduct stale_product (handleAddProduct stale_product []))
       = [\<lparr>cl_product = stale_product, cl_quantity = 3\<rparr>]
   \<and> p_stock stale_product = 2
   \<and> \<not> cart_ok (handleAddProduct example_product
                (handleAddProduct stale_product (handleAddProduct stale_product [])))"
  by (simp add: cart_ok_def line_ok_def handleAddProduct_def stale_product_def example_product_def)

end
